theory Spec2Isabelle
  imports Main
begin

section \<open>Python text operations\<close>

text \<open>
  Python text is modelled as \<open>string\<close>. What the user types is taken to be ASCII, one
  \<open>char\<close> per code point: the command words, the \<open>key: value\<close> tokens and the numbers
  the interpreter reads. The only other code points of the sources are the pictographs
  in front of some replies; they are named constants holding the bytes of the source file.
\<close>

definition is_space :: "char \<Rightarrow> bool" where
  \<comment> \<open>\<open>str.isspace\<close> on ASCII: tab, newline, vertical tab, form feed, carriage return,
      the four separators 0x1C..0x1F and the blank.\<close>
  "is_space c \<longleftrightarrow> c \<in> set [CHR 0x09, CHR 0x0A, CHR 0x0B, CHR 0x0C, CHR 0x0D,
                             CHR 0x1C, CHR 0x1D, CHR 0x1E, CHR 0x1F, CHR 0x20]"

definition is_int_space :: "char \<Rightarrow> bool" where
  \<comment> \<open>What \<open>int(s)\<close> skips around the number: the blank and tab to carriage return,
      not the four separators.\<close>
  "is_int_space c \<longleftrightarrow> c \<in> set [CHR 0x09, CHR 0x0A, CHR 0x0B, CHR 0x0C, CHR 0x0D, CHR 0x20]"

definition is_digit :: "char \<Rightarrow> bool" where
  "is_digit c \<longleftrightarrow> c \<in> set ''0123456789''"

definition digit_val :: "char \<Rightarrow> nat" where
  "digit_val c = (of_char c :: nat) - 48"

definition digit_char :: "nat \<Rightarrow> char" where
  "digit_char n = ''0123456789'' ! (n mod 10)"

definition lower_char :: "char \<Rightarrow> char" where
  "lower_char c =
     (let n = (of_char c :: nat) in if 65 \<le> n \<and> n \<le> 90 then char_of (n + 32) else c)"

definition lower :: "string \<Rightarrow> string" where
  \<comment> \<open>\<open>s.lower()\<close>\<close>
  "lower s = map lower_char s"

definition startswith :: "string \<Rightarrow> string \<Rightarrow> bool" where
  \<comment> \<open>\<open>s.startswith(p)\<close>\<close>
  "startswith s p \<longleftrightarrow> take (length p) s = p"

fun contains :: "string \<Rightarrow> string \<Rightarrow> bool" where
  \<comment> \<open>\<open>p in s\<close> on two strings: \<open>p\<close> occurs in \<open>s\<close>.\<close>
  "contains p [] = (p = [])"
| "contains p (c # cs) = (startswith (c # cs) p \<or> contains p cs)"

definition strip :: "string \<Rightarrow> string" where
  \<comment> \<open>\<open>s.strip()\<close>\<close>
  "strip s = rev (dropWhile is_space (rev (dropWhile is_space s)))"

function split_str :: "string \<Rightarrow> string \<Rightarrow> string list" where
  \<comment> \<open>\<open>s.split(sep)\<close> for a non-empty separator (every call site passes a literal):
      the occurrences of \<open>sep\<close> are found from the left and do not overlap.\<close>
  "split_str sep [] = [[]]"
| "split_str sep (c # cs) =
     (if sep \<noteq> [] \<and> startswith (c # cs) sep
      then [] # split_str sep (drop (length sep) (c # cs))
      else (case split_str sep cs of
              [] \<Rightarrow> [[c]]
            | w # ws \<Rightarrow> (c # w) # ws))"
  by pat_completeness auto
termination
  by (relation "measure (\<lambda>(sep, s). length s)") auto

definition split_once :: "string \<Rightarrow> string \<Rightarrow> string list" where
  \<comment> \<open>\<open>s.split(sep, 1)\<close>: cut at the first occurrence only.\<close>
  "split_once sep s =
     (case split_str sep s of
        [] \<Rightarrow> [s]
      | [w] \<Rightarrow> [w]
      | w # _ # _ \<Rightarrow> [w, drop (length w + length sep) s])"

definition first_word :: "string \<Rightarrow> string option" where
  \<comment> \<open>\<open>s.split()[0]\<close>: the first run of non-blank characters; \<open>None\<close> is the
      IndexError on a blank string.\<close>
  "first_word s =
     (let t = dropWhile is_space s
      in if t = [] then None else Some (takeWhile (\<lambda>c. \<not> is_space c) t))"

function replace :: "string \<Rightarrow> string \<Rightarrow> string \<Rightarrow> string" where
  \<comment> \<open>\<open>s.replace(old, new)\<close> for a non-empty \<open>old\<close>: every occurrence, from the left.\<close>
  "replace old new [] = []"
| "replace old new (c # cs) =
     (if old \<noteq> [] \<and> startswith (c # cs) old
      then new @ replace old new (drop (length old) (c # cs))
      else c # replace old new cs)"
  by pat_completeness auto
termination
  by (relation "measure (\<lambda>(old, new, s). length s)") auto

definition nth_opt :: "'a list \<Rightarrow> nat \<Rightarrow> 'a option" where
  \<comment> \<open>\<open>xs[i]\<close> for a literal index \<open>i \<ge> 0\<close>; \<open>None\<close> is the IndexError.\<close>
  "nth_opt xs i = (if i < length xs then Some (xs ! i) else None)"

definition py_index :: "'a list \<Rightarrow> int \<Rightarrow> 'a option" where
  \<comment> \<open>\<open>xs[i]\<close> for a computed index \<open>i\<close>: from the front when \<open>i \<ge> 0\<close>, from the back
      when \<open>i < 0\<close> (\<open>xs[-1]\<close> is the last element); \<open>None\<close> stands for the IndexError.\<close>
  "py_index xs i =
     (if 0 \<le> i \<and> i < int (length xs) then Some (xs ! nat i)
      else if i < 0 \<and> - int (length xs) \<le> i then Some (xs ! nat (int (length xs) + i))
      else None)"

subsection \<open>Integers as text\<close>

fun parse_digits :: "nat \<Rightarrow> string \<Rightarrow> nat option" where
  \<comment> \<open>The digits after the first one; a single underscore may stand between two digits.\<close>
  "parse_digits acc [] = Some acc"
| "parse_digits acc [c] = (if is_digit c then Some (10 * acc + digit_val c) else None)"
| "parse_digits acc (c # d # ds) =
     (if is_digit c then parse_digits (10 * acc + digit_val c) (d # ds)
      else if c = CHR ''_'' \<and> is_digit d then parse_digits (10 * acc + digit_val d) ds
      else None)"

definition parse_nat :: "string \<Rightarrow> nat option" where
  "parse_nat s =
     (case s of
        [] \<Rightarrow> None
      | c # cs \<Rightarrow> if is_digit c then parse_digits (digit_val c) cs else None)"

definition py_int :: "string \<Rightarrow> int option" where
  \<comment> \<open>\<open>int(s)\<close> on text: blanks around, an optional sign, decimal digits.
      \<open>None\<close> is the ValueError.\<close>
  "py_int s =
     (case rev (dropWhile is_int_space (rev (dropWhile is_int_space s))) of
        [] \<Rightarrow> None
      | c # cs \<Rightarrow>
          if c = CHR ''-'' then map_option (\<lambda>n. - int n) (parse_nat cs)
          else if c = CHR ''+'' then map_option int (parse_nat cs)
          else map_option int (parse_nat (c # cs)))"

function str_of_nat :: "nat \<Rightarrow> string" where
  "str_of_nat n = (if n < 10 then [digit_char n] else str_of_nat (n div 10) @ [digit_char n])"
  by pat_completeness auto
termination
  by (relation "measure id") auto

declare str_of_nat.simps [simp del]

definition str_of_int :: "int \<Rightarrow> string" where
  \<comment> \<open>\<open>str(i)\<close> and \<open>f"{i}"\<close> on an integer.\<close>
  "str_of_int i = (if i < 0 then CHR ''-'' # str_of_nat (nat (- i)) else str_of_nat (nat i))"

section \<open>Exceptions\<close>

datatype exn_kind =
    IndexError | KeyError | ValueError | TypeError | OverflowError
  | DatabaseError  \<comment> \<open>\<open>psycopg2.Error\<close> and its subclasses\<close>
  | OtherError     \<comment> \<open>anything else, such as a failed call of the backend\<close>

datatype exn = Exn exn_kind string  \<comment> \<open>the class of the exception and its \<open>str(e)\<close>\<close>

definition bind_exn :: "exn + 'a \<Rightarrow> ('a \<Rightarrow> exn + 'b) \<Rightarrow> exn + 'b" where
  \<comment> \<open>Sequencing: an exception of the first step skips the rest.\<close>
  "bind_exn m f = (case m of Inl e \<Rightarrow> Inl e | Inr x \<Rightarrow> f x)"

section \<open>Decoded JSON\<close>

text \<open>
  What \<open>json.loads\<close> returns: \<open>None\<close>, a bool, an int, a float, a str, a list or a dict.
  The float type is a parameter \<open>'f\<close>; a dict is the list of its items in insertion
  order, its keys distinct.
\<close>

datatype 'f json =
    JNull
  | JBool bool
  | JInt int
  | JFloat 'f
  | JStr string
  | JArr "'f json list"
  | JObj "(string \<times> 'f json) list"

record 'f pylib =
  \<comment> \<open>The functions of Python and of the validation library that have no source here.\<close>
  str_other :: "'f json \<Rightarrow> string"     \<comment> \<open>\<open>str(v)\<close> on a float, a list or a dict\<close>
  float_of_str :: "string \<Rightarrow> 'f option"  \<comment> \<open>\<open>float(s)\<close>; \<open>None\<close> is the ValueError\<close>
  int_of_float :: "'f \<Rightarrow> int option"     \<comment> \<open>\<open>int(x)\<close>; \<open>None\<close> on an infinity or a NaN\<close>
  float_of_int :: "int \<Rightarrow> 'f"            \<comment> \<open>\<open>float(i)\<close>, also the literal \<open>30.0\<close>\<close>
  lax_int :: "'f json \<Rightarrow> int option"     \<comment> \<open>an \<open>int\<close> field given a bool, a float or a str\<close>
  lax_float :: "'f json \<Rightarrow> 'f option"    \<comment> \<open>a \<open>float\<close> field given an int, a bool or a str\<close>
  load_error :: "'f json \<Rightarrow> string"      \<comment> \<open>\<open>str(e)\<close> when iterating or constructing from it raised\<close>

definition dict_set :: "(string \<times> 'v) list \<Rightarrow> string \<Rightarrow> 'v \<Rightarrow> (string \<times> 'v) list" where
  \<comment> \<open>\<open>d[k] = v\<close>: a key already there keeps its place, a new key goes last.\<close>
  "dict_set kvs k v =
     (if k \<in> set (map fst kvs)
      then map (\<lambda>kv. if fst kv = k then (k, v) else kv) kvs
      else kvs @ [(k, v)])"

definition py_str :: "'f pylib \<Rightarrow> 'f json \<Rightarrow> string" where
  \<comment> \<open>\<open>str(v)\<close>\<close>
  "py_str lib v =
     (case v of
        JNull \<Rightarrow> ''None''
      | JBool b \<Rightarrow> (if b then ''True'' else ''False'')
      | JInt i \<Rightarrow> str_of_int i
      | JStr s \<Rightarrow> s
      | _ \<Rightarrow> str_other lib v)"

definition py_iter :: "'f json \<Rightarrow> 'f json list option" where
  \<comment> \<open>What a \<open>for\<close> loop over the value visits: the elements of a list, the keys of a
      dict, the characters of a str. \<open>None\<close> is the TypeError on anything else.\<close>
  "py_iter v =
     (case v of
        JArr xs \<Rightarrow> Some xs
      | JObj kvs \<Rightarrow> Some (map (\<lambda>kv. JStr (fst kv)) kvs)
      | JStr s \<Rightarrow> Some (map (\<lambda>c. JStr [c]) s)
      | _ \<Rightarrow> None)"

section \<open>Plan records\<close>

record WorkoutPlan =
  day :: string
  exercises :: "(string \<times> string) list list"
  duration :: string
  intensity :: string

record 'f DietPlan =
  meal_type :: string
  foods :: "string list"
  calories :: int
  macros :: "(string \<times> 'f) list"

subsection \<open>Typed construction\<close>

definition str_field :: "'f json \<Rightarrow> string option" where
  \<comment> \<open>A field declared \<open>str\<close> takes a str and nothing else.\<close>
  "str_field v = (case v of JStr s \<Rightarrow> Some s | _ \<Rightarrow> None)"

definition str_items :: "(string \<times> 'f json) list \<Rightarrow> (string \<times> string) list option" where
  "str_items kvs = those (map (\<lambda>kv. map_option (Pair (fst kv)) (str_field (snd kv))) kvs)"

definition dict_str_field :: "'f json \<Rightarrow> (string \<times> string) list option" where
  \<comment> \<open>\<open>Dict[str, str]\<close>\<close>
  "dict_str_field v = (case v of JObj kvs \<Rightarrow> str_items kvs | _ \<Rightarrow> None)"

definition exercises_field :: "'f json \<Rightarrow> (string \<times> string) list list option" where
  \<comment> \<open>\<open>List[Dict[str, str]]\<close>\<close>
  "exercises_field v = (case v of JArr xs \<Rightarrow> those (map dict_str_field xs) | _ \<Rightarrow> None)"

definition required :: "(string \<times> 'f json) list \<Rightarrow> string \<Rightarrow> ('f json \<Rightarrow> 'a option) \<Rightarrow> 'a option" where
  \<comment> \<open>A field without default: missing is an error, present is validated.\<close>
  "required kvs k validate = (case map_of kvs k of None \<Rightarrow> None | Some v \<Rightarrow> validate v)"

definition WorkoutPlan_of :: "'f json \<Rightarrow> WorkoutPlan option" where
  \<comment> \<open>\<open>WorkoutPlan(**plan_data)\<close>; \<open>None\<close> is the exception (a value that is no dict
      cannot be unpacked, a dict may fail validation). Other keys are ignored.\<close>
  "WorkoutPlan_of v =
     (case v of
        JObj kvs \<Rightarrow>
          Option.bind (required kvs ''day'' str_field) (\<lambda>d.
          Option.bind (required kvs ''exercises'' exercises_field) (\<lambda>es.
          Option.bind (required kvs ''duration'' str_field) (\<lambda>du.
          Option.bind (required kvs ''intensity'' str_field) (\<lambda>i.
            Some \<lparr>day = d, exercises = es, duration = du, intensity = i\<rparr>))))
      | _ \<Rightarrow> None)"

section \<open>Plan Generator: workout plans\<close>

definition stringify_exercise :: "'f pylib \<Rightarrow> 'f json \<Rightarrow> 'f json" where
  \<comment> \<open>The inner loop of \<open>create_workout_plan\<close>: every value of an exercise dict becomes
      its \<open>str\<close>; an exercise that is no dict is logged and left as it is.\<close>
  "stringify_exercise lib e =
     (case e of
        JObj kvs \<Rightarrow> JObj (map (\<lambda>kv. (fst kv, JStr (py_str lib (snd kv)))) kvs)
      | _ \<Rightarrow> e)"

definition stringify_exercises :: "'f pylib \<Rightarrow> (string \<times> 'f json) list \<Rightarrow> (string \<times> 'f json) list" where
  \<comment> \<open>\<open>if "exercises" in plan_data and isinstance(plan_data["exercises"], list): ...\<close>\<close>
  "stringify_exercises lib kvs =
     (case map_of kvs ''exercises'' of
        Some (JArr es) \<Rightarrow> dict_set kvs ''exercises'' (JArr (map (stringify_exercise lib) es))
      | _ \<Rightarrow> kvs)"

definition workout_element :: "'f pylib \<Rightarrow> 'f json \<Rightarrow> WorkoutPlan option" where
  \<comment> \<open>The body of the inner \<open>try\<close>; \<open>None\<close> when it raised and the element was logged.\<close>
  "workout_element lib plan_data =
     (case plan_data of
        JObj kvs \<Rightarrow> WorkoutPlan_of (JObj (stringify_exercises lib kvs))
      | _ \<Rightarrow> None)"

fun workout_plans_of :: "'f pylib \<Rightarrow> 'f json list \<Rightarrow> WorkoutPlan list" where
  \<comment> \<open>\<open>for plan_data in workout_data: try: ... plans.append(plan) except Exception: ...\<close>\<close>
  "workout_plans_of lib [] = []"
| "workout_plans_of lib (x # xs) =
     (case workout_element lib x of
        None \<Rightarrow> workout_plans_of lib xs
      | Some p \<Rightarrow> p # workout_plans_of lib xs)"

definition fallback_day :: "nat \<Rightarrow> WorkoutPlan" where
  "fallback_day i =
     \<lparr>day = ''Day '' @ str_of_int (int i + 1),
      exercises =
        [[(''name'', ''Push-ups''), (''sets'', ''3''), (''reps'', ''12''), (''rest_period'', ''60s'')],
         [(''name'', ''Squats''), (''sets'', ''3''), (''reps'', ''15''), (''rest_period'', ''60s'')],
         [(''name'', ''Plank''), (''sets'', ''3''), (''reps'', ''30s''), (''rest_period'', ''60s'')]],
      duration = ''45 minutes'',
      intensity = ''moderate''\<rparr>"

definition create_fallback_workout_plan :: "int \<Rightarrow> WorkoutPlan list" where
  \<comment> \<open>\<open>_create_fallback_workout_plan\<close>: one generic day for each \<open>i in range(days)\<close>.\<close>
  "create_fallback_workout_plan days = map fallback_day [0..<nat days]"

definition create_workout_plan ::
  "'f pylib \<Rightarrow> (int \<Rightarrow> string \<Rightarrow> exn + 'f json option) \<Rightarrow> int \<Rightarrow> string \<Rightarrow> exn + WorkoutPlan list" where
  \<comment> \<open>\<open>FitnessAgent.create_workout_plan\<close>. \<open>llm days level\<close> is the call of the backend
      with the prompt naming \<open>days\<close> and \<open>level\<close>: \<open>Inl e\<close> when \<open>invoke\<close> raised (it stands
      outside the \<open>try\<close>), otherwise the reply decoded by \<open>json.loads\<close>, \<open>None\<close> when
      decoding raised.\<close>
  "create_workout_plan lib llm days fitness_level =
     bind_exn (llm days fitness_level) (\<lambda>response.
       case response of
         None \<Rightarrow> Inr (create_fallback_workout_plan days)
       | Some workout_data \<Rightarrow>
           (case py_iter workout_data of
              None \<Rightarrow> Inr (create_fallback_workout_plan days)
            | Some items \<Rightarrow>
                (let plans = workout_plans_of lib items
                 in if plans \<noteq> [] then Inr plans
                    else Inr (create_fallback_workout_plan days))))"

section \<open>Plan Generator: diet plans\<close>

definition int_field :: "'f pylib \<Rightarrow> 'f json \<Rightarrow> int option" where
  \<comment> \<open>A field declared \<open>int\<close>: an int as it is, a bool, a float or a str as the
      library converts it, nothing else.\<close>
  "int_field lib v =
     (case v of
        JInt i \<Rightarrow> Some i
      | JBool b \<Rightarrow> lax_int lib v
      | JFloat x \<Rightarrow> lax_int lib v
      | JStr s \<Rightarrow> lax_int lib v
      | _ \<Rightarrow> None)"

definition float_field :: "'f pylib \<Rightarrow> 'f json \<Rightarrow> 'f option" where
  \<comment> \<open>A value declared \<open>float\<close>: a float as it is, an int, a bool or a str as the
      library converts it, nothing else.\<close>
  "float_field lib v =
     (case v of
        JFloat x \<Rightarrow> Some x
      | JInt i \<Rightarrow> lax_float lib v
      | JBool b \<Rightarrow> lax_float lib v
      | JStr s \<Rightarrow> lax_float lib v
      | _ \<Rightarrow> None)"

definition foods_field :: "'f json \<Rightarrow> string list option" where
  \<comment> \<open>\<open>List[str]\<close>\<close>
  "foods_field v = (case v of JArr xs \<Rightarrow> those (map str_field xs) | _ \<Rightarrow> None)"

definition macros_field :: "'f pylib \<Rightarrow> 'f json \<Rightarrow> (string \<times> 'f) list option" where
  \<comment> \<open>\<open>Dict[str, float]\<close>\<close>
  "macros_field lib v =
     (case v of
        JObj kvs \<Rightarrow> those (map (\<lambda>kv. map_option (Pair (fst kv)) (float_field lib (snd kv))) kvs)
      | _ \<Rightarrow> None)"

definition DietPlan_of :: "'f pylib \<Rightarrow> 'f json \<Rightarrow> 'f DietPlan option" where
  \<comment> \<open>\<open>DietPlan(**meal_data)\<close>; \<open>None\<close> is the exception.\<close>
  "DietPlan_of lib v =
     (case v of
        JObj kvs \<Rightarrow>
          Option.bind (required kvs ''meal_type'' str_field) (\<lambda>t.
          Option.bind (required kvs ''foods'' foods_field) (\<lambda>fs.
          Option.bind (required kvs ''calories'' (int_field lib)) (\<lambda>c.
          Option.bind (required kvs ''macros'' (macros_field lib)) (\<lambda>ms.
            Some \<lparr>meal_type = t, foods = fs, calories = c, macros = ms\<rparr>))))
      | _ \<Rightarrow> None)"

definition is_int_instance :: "'f json \<Rightarrow> bool" where
  \<comment> \<open>\<open>isinstance(v, int)\<close>: a bool is an int too.\<close>
  "is_int_instance v = (case v of JInt i \<Rightarrow> True | JBool b \<Rightarrow> True | _ \<Rightarrow> False)"

definition is_float_instance :: "'f json \<Rightarrow> bool" where
  "is_float_instance v = (case v of JFloat x \<Rightarrow> True | _ \<Rightarrow> False)"

definition float_of_text :: "'f pylib \<Rightarrow> 'f json \<Rightarrow> 'f option" where
  \<comment> \<open>\<open>float(str(v).replace(",", ""))\<close>\<close>
  "float_of_text lib v = float_of_str lib (replace '','' [] (py_str lib v))"

definition coerce_calories :: "'f pylib \<Rightarrow> (string \<times> 'f json) list \<Rightarrow> (string \<times> 'f json) list option" where
  \<comment> \<open>\<open>if "calories" in meal_data and not isinstance(meal_data["calories"], int): ...\<close>\<close>
  "coerce_calories lib kvs =
     (case map_of kvs ''calories'' of
        None \<Rightarrow> Some kvs
      | Some v \<Rightarrow>
          if is_int_instance v then Some kvs
          else Option.bind (float_of_text lib v) (\<lambda>x.
               Option.bind (int_of_float lib x) (\<lambda>i.
                 Some (dict_set kvs ''calories'' (JInt i)))))"

fun coerce_macro_values :: "'f pylib \<Rightarrow> (string \<times> 'f json) list \<Rightarrow> (string \<times> 'f json) list option" where
  \<comment> \<open>\<open>for key, value in meal_data["macros"].items(): if not isinstance(value, float): ...\<close>\<close>
  "coerce_macro_values lib [] = Some []"
| "coerce_macro_values lib (kv # rest) =
     (if is_float_instance (snd kv)
      then map_option ((#) kv) (coerce_macro_values lib rest)
      else Option.bind (float_of_text lib (snd kv)) (\<lambda>x.
           map_option ((#) (fst kv, JFloat x)) (coerce_macro_values lib rest)))"

definition coerce_macros :: "'f pylib \<Rightarrow> (string \<times> 'f json) list \<Rightarrow> (string \<times> 'f json) list option" where
  \<comment> \<open>\<open>if "macros" in meal_data and isinstance(meal_data["macros"], dict): ...\<close>\<close>
  "coerce_macros lib kvs =
     (case map_of kvs ''macros'' of
        Some (JObj ms) \<Rightarrow>
          map_option (\<lambda>ms'. dict_set kvs ''macros'' (JObj ms')) (coerce_macro_values lib ms)
      | _ \<Rightarrow> Some kvs)"

definition diet_element :: "'f pylib \<Rightarrow> 'f json \<Rightarrow> 'f DietPlan option" where
  \<comment> \<open>The body of the inner \<open>try\<close>; \<open>None\<close> when it raised and the element was logged.\<close>
  "diet_element lib meal_data =
     (case meal_data of
        JObj kvs \<Rightarrow>
          Option.bind (coerce_calories lib kvs) (\<lambda>kvs1.
          Option.bind (coerce_macros lib kvs1) (\<lambda>kvs2.
            DietPlan_of lib (JObj kvs2)))
      | _ \<Rightarrow> None)"

fun diet_plans_of :: "'f pylib \<Rightarrow> 'f json list \<Rightarrow> 'f DietPlan list" where
  \<comment> \<open>\<open>for meal_data in diet_data: try: ... plans.append(plan) except Exception: ...\<close>\<close>
  "diet_plans_of lib [] = []"
| "diet_plans_of lib (x # xs) =
     (case diet_element lib x of
        None \<Rightarrow> diet_plans_of lib xs
      | Some p \<Rightarrow> p # diet_plans_of lib xs)"

definition fallback_meal ::
  "'f pylib \<Rightarrow> string \<Rightarrow> string list \<Rightarrow> int \<Rightarrow> int \<Rightarrow> int \<Rightarrow> int \<Rightarrow> 'f DietPlan" where
  \<comment> \<open>One entry of the fallback: the three macro values are the floats of whole numbers.\<close>
  "fallback_meal lib t fs c p cb ft =
     \<lparr>meal_type = t, foods = fs, calories = c,
      macros = [(''protein'', float_of_int lib p), (''carbs'', float_of_int lib cb),
                (''fat'', float_of_int lib ft)]\<rparr>"

definition create_fallback_diet_plan :: "'f pylib \<Rightarrow> 'f DietPlan list" where
  \<comment> \<open>\<open>_create_fallback_diet_plan\<close>\<close>
  "create_fallback_diet_plan lib =
     [fallback_meal lib ''Breakfast'' [''Oatmeal'', ''Banana'', ''Protein Shake''] 500 30 60 10,
      fallback_meal lib ''Lunch'' [''Chicken Breast'', ''Brown Rice'', ''Broccoli''] 700 40 45 15,
      fallback_meal lib ''Dinner'' [''Salmon'', ''Sweet Potato'', ''Asparagus''] 600 35 35 30,
      fallback_meal lib ''Snack'' [''Greek Yogurt'', ''Almonds'', ''Berries''] 300 20 15 15]"

definition create_diet_plan ::
  "'f pylib \<Rightarrow> (int \<Rightarrow> exn + 'f json option) \<Rightarrow> int \<Rightarrow> exn + 'f DietPlan list" where
  \<comment> \<open>\<open>FitnessAgent.create_diet_plan\<close>. \<open>llm daily_calories\<close> is the call of the backend
      with the prompt naming the calorie target, as in \<open>create_workout_plan\<close>.\<close>
  "create_diet_plan lib llm daily_calories =
     bind_exn (llm daily_calories) (\<lambda>response.
       case response of
         None \<Rightarrow> Inr (create_fallback_diet_plan lib)
       | Some diet_data \<Rightarrow>
           (case py_iter diet_data of
              None \<Rightarrow> Inr (create_fallback_diet_plan lib)
            | Some items \<Rightarrow>
                (let plans = diet_plans_of lib items
                 in if plans \<noteq> [] then Inr plans
                    else Inr (create_fallback_diet_plan lib))))"

section \<open>Persistence Gateway\<close>

text \<open>
  The store is outside the program. One call of a gateway operation sees it through the
  outcomes of the driver calls it makes, in order: each either returns or raises. The
  type \<open>'r\<close> is what the operation reads from a fetched row.
\<close>

record 'r driver =
  connected :: bool                          \<comment> \<open>\<open>self.conn\<close> is not \<open>None\<close>\<close>
  cursor :: "exn option"                     \<comment> \<open>\<open>self.conn.cursor()\<close>; \<open>None\<close>: it returned\<close>
  execute :: "nat \<Rightarrow> exn option"            \<comment> \<open>the \<open>k\<close>-th \<open>cur.execute(...)\<close> of the call\<close>
  fetchone :: "nat \<Rightarrow> exn + 'r option"      \<comment> \<open>the \<open>k\<close>-th \<open>cur.fetchone()\<close>: a row or \<open>None\<close>\<close>
  fetchall :: "exn + 'r list"                \<comment> \<open>\<open>cur.fetchall()\<close>\<close>
  commit :: "exn option"                     \<comment> \<open>\<open>self.conn.commit()\<close>\<close>
  rollback :: "exn option"                   \<comment> \<open>\<open>self.conn.rollback()\<close>\<close>

definition and_then :: "exn option \<Rightarrow> exn + 'a \<Rightarrow> exn + 'a" where
  \<comment> \<open>A call without result, then the rest.\<close>
  "and_then r k = (case r of Some e \<Rightarrow> Inl e | None \<Rightarrow> k)"

definition is_db_error :: "exn \<Rightarrow> bool" where
  "is_db_error e = (case e of Exn k m \<Rightarrow> k = DatabaseError)"

definition except_db :: "exn + 'a \<Rightarrow> exn + 'a \<Rightarrow> exn + 'a" where
  \<comment> \<open>\<open>try: body except psycopg2.Error: handler\<close>: any other exception passes.\<close>
  "except_db body handler =
     (case body of
        Inl e \<Rightarrow> if is_db_error e then handler else Inl e
      | Inr v \<Rightarrow> Inr v)"

definition none_row :: exn where
  \<comment> \<open>\<open>cur.fetchone()[0]\<close> when no row came back.\<close>
  "none_row = Exn TypeError (CHR 0x27 # ''NoneType'' @ CHR 0x27 # '' object is not subscriptable'')"

definition get_or_create_user_body :: "int driver \<Rightarrow> string \<Rightarrow> exn + int \<times> bool" where
  "get_or_create_user_body d username =
     and_then (cursor d) (
     and_then (execute d 0) (
     bind_exn (fetchone d 0) (\<lambda>result.
       case result of
         Some uid \<Rightarrow> Inr (uid, False)
       | None \<Rightarrow>
           and_then (execute d 1) (
           bind_exn (fetchone d 1) (\<lambda>row.
             case row of
               None \<Rightarrow> Inl none_row
             | Some uid \<Rightarrow> and_then (commit d) (Inr (uid, True)))))))"

definition get_or_create_user :: "int driver \<Rightarrow> string \<Rightarrow> exn + int \<times> bool" where
  "get_or_create_user d username =
     (if \<not> connected d then Inr (- 1, False)
      else except_db (get_or_create_user_body d username)
             (and_then (rollback d) (Inr (- 1, False))))"

definition get_profile_body :: "(string \<times> 'f json) list driver \<Rightarrow> int \<Rightarrow> exn + (string \<times> 'f json) list" where
  \<comment> \<open>The row is read at its column \<open>profile_data\<close>.\<close>
  "get_profile_body d uid =
     and_then (cursor d) (
     and_then (execute d 0) (
     bind_exn (fetchone d 0) (\<lambda>result.
       case result of
         Some profile_data \<Rightarrow> Inr profile_data
       | None \<Rightarrow> Inr [])))"

definition get_profile :: "(string \<times> 'f json) list driver \<Rightarrow> int \<Rightarrow> exn + (string \<times> 'f json) list" where
  "get_profile d uid =
     (if \<not> connected d then Inr []
      else except_db (get_profile_body d uid) (Inr []))"

definition save_profile_body :: "int driver \<Rightarrow> int \<Rightarrow> (string \<times> 'f json) list \<Rightarrow> exn + bool" where
  \<comment> \<open>The second statement is the UPDATE when a row exists and the INSERT when not.\<close>
  "save_profile_body d uid profile_data =
     and_then (cursor d) (
     and_then (execute d 0) (
     bind_exn (fetchone d 0) (\<lambda>result.
       case result of
         Some row \<Rightarrow> and_then (execute d 1) (and_then (commit d) (Inr True))
       | None \<Rightarrow> and_then (execute d 1) (and_then (commit d) (Inr True)))))"

definition save_profile :: "int driver \<Rightarrow> int \<Rightarrow> (string \<times> 'f json) list \<Rightarrow> exn + bool" where
  "save_profile d uid profile_data =
     (if \<not> connected d then Inr False
      else except_db (save_profile_body d uid profile_data)
             (and_then (rollback d) (Inr False)))"

definition save_plan_body :: "int driver \<Rightarrow> exn + int" where
  \<comment> \<open>The body shared, word for word, by \<open>save_workout_plan\<close> and \<open>save_diet_plan\<close>:
      one INSERT returning the new id.\<close>
  "save_plan_body d =
     and_then (cursor d) (
     and_then (execute d 0) (
     bind_exn (fetchone d 0) (\<lambda>row.
       case row of
         None \<Rightarrow> Inl none_row
       | Some plan_id \<Rightarrow> and_then (commit d) (Inr plan_id))))"

definition save_workout_plan :: "int driver \<Rightarrow> int \<Rightarrow> string \<Rightarrow> 'f json list \<Rightarrow> exn + int" where
  "save_workout_plan d uid name plan_data =
     (if \<not> connected d then Inr (- 1)
      else except_db (save_plan_body d) (and_then (rollback d) (Inr (- 1))))"

definition save_diet_plan :: "int driver \<Rightarrow> int \<Rightarrow> string \<Rightarrow> 'f json list \<Rightarrow> exn + int" where
  "save_diet_plan d uid name plan_data =
     (if \<not> connected d then Inr (- 1)
      else except_db (save_plan_body d) (and_then (rollback d) (Inr (- 1))))"

definition get_plans_body :: "'r driver \<Rightarrow> exn + 'r list" where
  \<comment> \<open>The body shared by \<open>get_workout_plans\<close> and \<open>get_diet_plans\<close>.\<close>
  "get_plans_body d = and_then (cursor d) (and_then (execute d 0) (fetchall d))"

definition get_workout_plans :: "'r driver \<Rightarrow> int \<Rightarrow> exn + 'r list" where
  "get_workout_plans d uid =
     (if \<not> connected d then Inr []
      else except_db (get_plans_body d) (Inr []))"

definition get_diet_plans :: "'r driver \<Rightarrow> int \<Rightarrow> exn + 'r list" where
  "get_diet_plans d uid =
     (if \<not> connected d then Inr []
      else except_db (get_plans_body d) (Inr []))"

section \<open>Rendering a plan as text\<close>

definition nl :: string where
  "nl = [CHR 0x0A]"

definition key_error :: "string \<Rightarrow> exn" where
  \<comment> \<open>\<open>d[k]\<close> on a missing key; the text of a KeyError is the quoted key.\<close>
  "key_error k = Exn KeyError (CHR 0x27 # k @ [CHR 0x27])"

definition item :: "(string \<times> 'v) list \<Rightarrow> string \<Rightarrow> exn + 'v" where
  \<comment> \<open>\<open>d[k]\<close>\<close>
  "item d k = (case map_of d k of None \<Rightarrow> Inl (key_error k) | Some v \<Rightarrow> Inr v)"

definition exercise_line :: "(string \<times> string) list \<Rightarrow> exn + string" where
  \<comment> \<open>\<open>f"- {exercise['name']}: {exercise['sets']} sets x {exercise['reps']} reps"\<close>\<close>
  "exercise_line e =
     bind_exn (item e ''name'') (\<lambda>n.
     bind_exn (item e ''sets'') (\<lambda>s.
     bind_exn (item e ''reps'') (\<lambda>r.
       Inr (''- '' @ n @ '': '' @ s @ '' sets x '' @ r @ '' reps''))))"

definition rest_note :: "(string \<times> string) list \<Rightarrow> string" where
  \<comment> \<open>\<open>if "rest_period" in exercise: ... f" (Rest: {exercise['rest_period']})"\<close>\<close>
  "rest_note e = (case map_of e ''rest_period'' of None \<Rightarrow> [] | Some r \<Rightarrow> '' (Rest: '' @ r @ '')'')"

fun exercise_lines :: "bool \<Rightarrow> (string \<times> string) list list \<Rightarrow> exn + string" where
  \<comment> \<open>The loop over the exercises of one day, with or without the rest period.\<close>
  "exercise_lines rest [] = Inr []"
| "exercise_lines rest (e # es) =
     bind_exn (exercise_line e) (\<lambda>l.
     bind_exn (exercise_lines rest es) (\<lambda>ls.
       Inr (l @ (if rest then rest_note e else []) @ nl @ ls)))"

section \<open>Calendar Exporter\<close>

record datetime =
  year :: nat
  month :: nat
  day_of_month :: nat
  hour :: nat
  minute :: nat
  second :: nat
  microsecond :: nat

definition is_leap :: "nat \<Rightarrow> bool" where
  "is_leap y \<longleftrightarrow> y mod 4 = 0 \<and> (y mod 100 \<noteq> 0 \<or> y mod 400 = 0)"

definition days_in_month :: "nat \<Rightarrow> nat \<Rightarrow> nat" where
  "days_in_month y m =
     (if m = 2 then (if is_leap y then 29 else 28)
      else if m = 4 \<or> m = 6 \<or> m = 9 \<or> m = 11 then 30
      else 31)"

definition date_overflow :: exn where
  "date_overflow = Exn OverflowError ''date value out of range''"

definition next_day :: "datetime \<Rightarrow> exn + datetime" where
  \<comment> \<open>\<open>d + timedelta(days=1)\<close>; the last date there is, is 9999-12-31.\<close>
  "next_day d =
     (if day_of_month d < days_in_month (year d) (month d)
        then Inr (d\<lparr>day_of_month := day_of_month d + 1\<rparr>)
      else if month d < 12
        then Inr (d\<lparr>month := month d + 1, day_of_month := 1\<rparr>)
      else if year d < 9999
        then Inr (d\<lparr>year := year d + 1, month := 1, day_of_month := 1\<rparr>)
      else Inl date_overflow)"

fun plus_days :: "datetime \<Rightarrow> nat \<Rightarrow> exn + datetime" where
  \<comment> \<open>\<open>d + timedelta(days=i)\<close> for the index \<open>i \<ge> 0\<close> of \<open>enumerate\<close>.\<close>
  "plus_days d 0 = Inr d"
| "plus_days d (Suc i) = bind_exn (next_day d) (\<lambda>d'. plus_days d' i)"

record event =
  event_name :: string
  event_description :: string
  event_begin :: datetime
  event_duration :: int    \<comment> \<open>\<open>timedelta(minutes=...)\<close>, in minutes\<close>
  event_uid :: string

record calendar =
  creator :: string
  events :: "event list"   \<comment> \<open>in the order they were added\<close>

definition workout_description :: "WorkoutPlan \<Rightarrow> exn + string" where
  "workout_description workout =
     bind_exn (exercise_lines True (exercises workout)) (\<lambda>ls.
       Inr (''Intensity: '' @ intensity workout @ nl @ ''Exercises:'' @ nl @ ls))"

definition timedelta_overflow :: "int \<Rightarrow> exn" where
  \<comment> \<open>The OverflowError of a \<open>timedelta\<close> of \<open>d\<close> days.\<close>
  "timedelta_overflow d =
     Exn OverflowError
       (if - 2147483648 \<le> d \<and> d \<le> 2147483647
        then ''days='' @ str_of_int d @ ''; must have magnitude <= 999999999''
        else ''Python int too large to convert to C int'')"

definition timedelta_minutes :: "int \<Rightarrow> exn + int" where
  \<comment> \<open>\<open>timedelta(minutes=m)\<close>, kept in minutes: its days, \<open>m\<close> divided by 1440 and rounded
      down, must lie within 999999999 on either side of zero.\<close>
  "timedelta_minutes m =
     (if - 999999999 \<le> m div 1440 \<and> m div 1440 \<le> 999999999 then Inr m
      else Inl (timedelta_overflow (m div 1440)))"

datatype ics_call =
    Set_creator string      \<comment> \<open>\<open>cal.creator = ...\<close>\<close>
  | Set_name string         \<comment> \<open>\<open>event.name = ...\<close>\<close>
  | Set_description string  \<comment> \<open>\<open>event.description = ...\<close>\<close>
  | Set_begin datetime      \<comment> \<open>\<open>event.begin = ...\<close>\<close>
  | Set_duration int        \<comment> \<open>\<open>event.duration = ...\<close>\<close>
  | Set_uid string          \<comment> \<open>\<open>event.uid = ...\<close>\<close>
  | Events_add event        \<comment> \<open>\<open>cal.events.add(event)\<close>\<close>

record calendar_env =
  \<comment> \<open>What the exporter calls and has no source here: the identifier source, the
      calendar library and the file system.\<close>
  uuid4 :: "nat \<Rightarrow> string"                         \<comment> \<open>\<open>str(uuid4())\<close> for the event of index \<open>i\<close>\<close>
  ics :: "ics_call \<Rightarrow> exn option"                  \<comment> \<open>a call of the library; \<open>None\<close>: it returned\<close>
  write_file :: "string \<Rightarrow> calendar \<Rightarrow> exn option"  \<comment> \<open>\<open>open(filepath, "w")\<close> and \<open>f.write(str(cal))\<close>\<close>

definition workout_event :: "calendar_env \<Rightarrow> nat \<Rightarrow> WorkoutPlan \<Rightarrow> string \<Rightarrow> datetime \<Rightarrow> int \<Rightarrow> event" where
  \<comment> \<open>The event of one iteration, once its attributes are set.\<close>
  "workout_event env i workout description event_date minutes =
     \<lparr>event_name = ''Workout: '' @ day workout,
      event_description = description,
      event_begin = event_date,
      event_duration = minutes,
      event_uid = uuid4 env i\<rparr>"

fun workout_events ::
  "calendar_env \<Rightarrow> datetime \<Rightarrow> int \<Rightarrow> nat \<Rightarrow> WorkoutPlan list \<Rightarrow> exn + event list" where
  \<comment> \<open>\<open>for i, workout in enumerate(workout_plans): ...\<close>, from index \<open>i\<close> on, statement by
      statement.\<close>
  "workout_events env start_date workout_duration_minutes i [] = Inr []"
| "workout_events env start_date workout_duration_minutes i (workout # rest) =
     and_then (ics env (Set_name (''Workout: '' @ day workout))) (
     bind_exn (workout_description workout) (\<lambda>description.
     and_then (ics env (Set_description description)) (
     bind_exn (plus_days start_date i) (\<lambda>event_date.
     and_then (ics env (Set_begin event_date)) (
     bind_exn (timedelta_minutes workout_duration_minutes) (\<lambda>minutes.
     and_then (ics env (Set_duration minutes)) (
     and_then (ics env (Set_uid (uuid4 env i))) (
     and_then (ics env (Events_add (workout_event env i workout description event_date minutes))) (
     bind_exn (workout_events env start_date workout_duration_minutes (Suc i) rest) (\<lambda>evs.
       Inr (workout_event env i workout description event_date minutes # evs)))))))))))"

definition pad_left :: "nat \<Rightarrow> string \<Rightarrow> string" where
  "pad_left n s = replicate (n - length s) CHR ''0'' @ s"

definition strftime_Ymd :: "datetime \<Rightarrow> string" where
  \<comment> \<open>\<open>d.strftime('%Y%m%d')\<close>, for the years from 1000 on.\<close>
  "strftime_Ymd d =
     pad_left 4 (str_of_nat (year d)) @ pad_left 2 (str_of_nat (month d))
       @ pad_left 2 (str_of_nat (day_of_month d))"

definition path_join :: "string \<Rightarrow> string \<Rightarrow> string" where
  \<comment> \<open>\<open>os.path.join(a, b)\<close>\<close>
  "path_join a b =
     (if startswith b ''/'' then b
      else if a = [] \<or> last a = CHR ''/'' then a @ b
      else a @ ''/'' @ b)"

definition calendar_path :: "string \<Rightarrow> string \<Rightarrow> datetime \<Rightarrow> string" where
  \<comment> \<open>\<open>filepath\<close>: the name with blanks as underscores, the start date, \<open>.ics\<close>, in the
      agent's directory.\<close>
  "calendar_path output_dir calendar_name start_date =
     path_join output_dir
       (replace '' '' ''_'' calendar_name @ ''_'' @ strftime_Ymd start_date @ ''.ics'')"

definition create_workout_calendar ::
  "calendar_env \<Rightarrow> string \<Rightarrow> WorkoutPlan list \<Rightarrow> datetime \<Rightarrow> string option \<Rightarrow> int option
     \<Rightarrow> exn + string \<times> calendar" where
  \<comment> \<open>\<open>CalendarAgent.create_workout_calendar\<close>: the path returned and the calendar written
      there. \<open>output_dir\<close> is the agent's directory; an argument left out is \<open>None\<close> and
      takes its default, \<open>"Workout Schedule"\<close> and 60.\<close>
  "create_workout_calendar env output_dir workout_plans start_date calendar_name_arg minutes_arg =
     (let calendar_name = (case calendar_name_arg of None \<Rightarrow> ''Workout Schedule'' | Some s \<Rightarrow> s);
          workout_duration_minutes = (case minutes_arg of None \<Rightarrow> 60 | Some m \<Rightarrow> m)
      in and_then (ics env (Set_creator ''Fitness Agent - Calendar Generator'')) (
         bind_exn (workout_events env start_date workout_duration_minutes 0 workout_plans) (\<lambda>evs.
           (let cal = \<lparr>creator = ''Fitness Agent - Calendar Generator'', events = evs\<rparr>;
                filepath = calendar_path output_dir calendar_name start_date
            in and_then (write_file env filepath cal) (Inr (filepath, cal))))))"

section \<open>Command Interpreter of the web front end\<close>

text \<open>
  \<open>app.py\<close>. The session is \<open>st.session_state\<close>; a saved plan is a row of
  \<open>get_workout_plans\<close> or \<open>get_diet_plans\<close>, with the columns the commands below read.
  The pictographs of the replies are kept as the bytes the source file holds.
\<close>

record 'f saved_plan =
  plan_id :: int
  plan_name :: string
  plan_data :: "'f json"

record 'f session =
  current_workout_plan :: "WorkoutPlan list option"
  current_diet_plan :: "'f DietPlan list option"
  user_profile :: "(string \<times> 'f json) list"
  saved_workout_plans :: "'f saved_plan list"
  saved_diet_plans :: "'f saved_plan list"
  user_id :: int

datatype command =
    CreateWorkout | CreateDiet | SaveWorkout | SaveDiet | ListWorkouts | ListDiets
  | LoadWorkout | LoadDiet | ViewProfile | UpdateProfile | ExportCalendar
  | ScheduleWorkout | Help | Exit | FreeChat

datatype 'f outcome =
    Reply "'f session" string  \<comment> \<open>the session after the command and the text returned\<close>
  | Beyond command             \<comment> \<open>a branch that is not followed here\<close>

definition app_command :: "string \<Rightarrow> command" where
  \<comment> \<open>The \<open>if\<close>/\<open>elif\<close> chain of \<open>process_chat_message\<close> on \<open>message_lower\<close>.\<close>
  "app_command m =
     (if startswith m ''create workout'' \<or> startswith m ''create workout plan'' then CreateWorkout
      else if startswith m ''create diet'' \<or> startswith m ''create diet plan'' then CreateDiet
      else if startswith m ''save workout'' then SaveWorkout
      else if startswith m ''save diet'' then SaveDiet
      else if startswith m ''list workout'' \<or> m = ''list workouts'' then ListWorkouts
      else if startswith m ''list diet'' \<or> m = ''list diets'' then ListDiets
      else if startswith m ''load workout'' then LoadWorkout
      else if startswith m ''load diet'' then LoadDiet
      else if startswith m ''view profile'' \<or> m = ''profile'' then ViewProfile
      else if startswith m ''update profile'' then UpdateProfile
      else if startswith m ''export calendar'' \<or> startswith m ''create calendar'' then ExportCalendar
      else if startswith m ''schedule workout'' then ScheduleWorkout
      else if m = ''help'' then Help
      else FreeChat)"

definition exn_text :: "exn \<Rightarrow> string" where
  \<comment> \<open>\<open>str(e)\<close>\<close>
  "exn_text e = (case e of Exn k m \<Rightarrow> m)"

definition app_ok_mark :: string where
  "app_ok_mark = [CHR 0xC3, CHR 0xA2, CHR 0xC5, CHR 0x93, CHR 0xE2, CHR 0x80, CHR 0xA6]"

definition app_fail_mark :: string where
  "app_fail_mark = [CHR 0xC3, CHR 0xA2, CHR 0xC5, CHR 0x92]"

definition app_calendar_mark :: string where
  "app_calendar_mark =
     [CHR 0xC3, CHR 0xB0, CHR 0xC5, CHR 0xB8, CHR 0xE2, CHR 0x80, CHR 0x9C, CHR 0xE2, CHR 0x80, CHR 0xA6]"

definition app_clock_mark :: string where
  "app_clock_mark = [CHR 0xC3, CHR 0xA2, CHR 0xC2, CHR 0xB1, CHR 0xC3, CHR 0xAF, CHR 0xC2, CHR 0xB8]"

definition app_muscle_mark :: string where
  "app_muscle_mark =
     [CHR 0xC3, CHR 0xB0, CHR 0xC5, CHR 0xB8, CHR 0xE2, CHR 0x80, CHR 0x99, CHR 0xC2, CHR 0xAA]"

definition app_plate_mark :: string where
  "app_plate_mark =
     [CHR 0xC3, CHR 0xB0, CHR 0xC5, CHR 0xB8, CHR 0xC2, CHR 0xBD, CHR 0xC3, CHR 0xAF, CHR 0xC2, CHR 0xB8]"

definition apology :: string where
  \<comment> \<open>The reply of the outermost \<open>except Exception\<close> of \<open>process_chat_message\<close>.\<close>
  "apology = ''I'm sorry, I encountered an error processing your request. Please try again or type 'help' to see available commands.''"

fun format_days :: "string \<Rightarrow> string \<Rightarrow> string \<Rightarrow> bool \<Rightarrow> WorkoutPlan list \<Rightarrow> exn + string" where
  \<comment> \<open>The loop that renders the days of a plan; the three pictographs and whether the
      rest period is shown differ between the two front ends.\<close>
  "format_days cal clock muscle rest [] = Inr []"
| "format_days cal clock muscle rest (plan # plans) =
     bind_exn (exercise_lines rest (exercises plan)) (\<lambda>ls.
     bind_exn (format_days cal clock muscle rest plans) (\<lambda>more.
       Inr (cal @ '' '' @ day plan @ '':'' @ nl
            @ clock @ '' Duration: '' @ duration plan @ nl
            @ muscle @ '' Intensity: '' @ intensity plan @ nl
            @ ''Exercises:'' @ nl @ ls @ nl @ more)))"

definition format_workout_plan :: "WorkoutPlan list \<Rightarrow> exn + string" where
  "format_workout_plan workout_plan =
     format_days app_calendar_mark app_clock_mark app_muscle_mark True workout_plan"

fun format_diet_plan :: "'f pylib \<Rightarrow> 'f DietPlan list \<Rightarrow> exn + string" where
  "format_diet_plan lib [] = Inr []"
| "format_diet_plan lib (m # ms) =
     bind_exn (item (macros m) ''protein'') (\<lambda>p.
     bind_exn (item (macros m) ''carbs'') (\<lambda>c.
     bind_exn (item (macros m) ''fat'') (\<lambda>f.
     bind_exn (format_diet_plan lib ms) (\<lambda>more.
       Inr (app_plate_mark @ '' '' @ meal_type m @ '':'' @ nl
            @ ''Calories: '' @ str_of_int (calories m) @ nl
            @ ''Macros: Protein: '' @ py_str lib (JFloat p) @ ''g, Carbs: '' @ py_str lib (JFloat c)
            @ ''g, Fat: '' @ py_str lib (JFloat f) @ ''g'' @ nl
            @ ''Foods:'' @ nl @ concat (map (\<lambda>food. ''- '' @ food @ nl) (foods m)) @ nl @ more)))))"

definition not_iterable :: exn where
  \<comment> \<open>Formatting the current plan when there is none.\<close>
  "not_iterable = Exn TypeError (CHR 0x27 # ''NoneType'' @ CHR 0x27 # '' object is not iterable'')"

subsection \<open>Creating a workout plan\<close>

definition app_days :: "string \<Rightarrow> int" where
  \<comment> \<open>\<open>days = 4\<close>, then \<open>int(message.split("days:")[1].split()[0])\<close> unless that raises
      ValueError or IndexError.\<close>
  "app_days message =
     (if contains ''days:'' message
      then (case nth_opt (split_str ''days:'' message) 1 of
              None \<Rightarrow> 4
            | Some rest \<Rightarrow>
                (case first_word rest of
                   None \<Rightarrow> 4
                 | Some days_part \<Rightarrow>
                     (case py_int days_part of None \<Rightarrow> 4 | Some n \<Rightarrow> n)))
      else 4)"

definition app_level :: "string \<Rightarrow> string" where
  \<comment> \<open>\<open>level = "intermediate"\<close>, then the first word after \<open>level:\<close> when it is one of
      the three levels.\<close>
  "app_level message =
     (if contains ''level:'' (lower message)
      then (case nth_opt (split_str ''level:'' (lower message)) 1 of
              None \<Rightarrow> ''intermediate''
            | Some rest \<Rightarrow>
                (case first_word (strip rest) of
                   None \<Rightarrow> ''intermediate''
                 | Some level_value \<Rightarrow>
                     if level_value \<in> set [''beginner'', ''intermediate'', ''advanced'']
                     then level_value else ''intermediate''))
      else ''intermediate'')"

definition app_create_workout ::
  "'f pylib \<Rightarrow> (int \<Rightarrow> string \<Rightarrow> exn + 'f json option) \<Rightarrow> 'f session \<Rightarrow> string \<Rightarrow> 'f outcome" where
  \<comment> \<open>The branch \<open>create workout\<close>, with the helper \<open>create_workout_plan\<close> of \<open>app.py\<close>
      inlined: it stores the plan as current, or turns an exception into its text.\<close>
  "app_create_workout lib llm st message =
     (let days = app_days message; level = app_level message
      in case create_workout_plan lib llm days level of
           Inl e \<Rightarrow> Reply st (app_fail_mark @ '' I couldn't create the workout plan: '' @ exn_text e)
         | Inr workout_plan \<Rightarrow>
             (let st' = st\<lparr>current_workout_plan := Some workout_plan\<rparr>
              in case format_workout_plan workout_plan of
                   Inl e \<Rightarrow> Reply st' apology
                 | Inr plan_details \<Rightarrow>
                     Reply st' (app_ok_mark @ '' I've created a '' @ str_of_int days
                       @ ''-day workout plan for '' @ level @ '' fitness level:'' @ nl @ nl
                       @ plan_details @ nl @ nl @ ''You can now:'' @ nl
                       @ ''- Say 'save workout name: My Plan' to save it'' @ nl
                       @ ''- Say 'schedule workout' to see scheduling options'' @ nl
                       @ ''- Say 'export calendar' to export to a calendar file'')))"

subsection \<open>Loading a saved plan\<close>

fun construct_all :: "('f json \<Rightarrow> 'a option) \<Rightarrow> 'f json list \<Rightarrow> 'f json + 'a list" where
  \<comment> \<open>\<open>for x in plan_data: plans.append(Plan(**x))\<close>: the plans, or the element at which
      the construction raised.\<close>
  "construct_all f [] = Inr []"
| "construct_all f (v # vs) =
     (case f v of
        None \<Rightarrow> Inl v
      | Some p \<Rightarrow> (case construct_all f vs of Inl w \<Rightarrow> Inl w | Inr ps \<Rightarrow> Inr (p # ps)))"

definition load_workout_plan :: "'f pylib \<Rightarrow> 'f session \<Rightarrow> int \<Rightarrow> 'f session \<times> bool \<times> string" where
  "load_workout_plan lib st plan_index =
     (if saved_workout_plans st = [] then (st, False, ''No saved workout plans'')
      else case py_index (saved_workout_plans st) plan_index of
             None \<Rightarrow> (st, False, ''list index out of range'')
           | Some selected_plan \<Rightarrow>
               (case py_iter (plan_data selected_plan) of
                  None \<Rightarrow> (st, False, load_error lib (plan_data selected_plan))
                | Some items \<Rightarrow>
                    (case construct_all WorkoutPlan_of items of
                       Inl v \<Rightarrow> (st, False, load_error lib v)
                     | Inr workout_plans \<Rightarrow>
                         (st\<lparr>current_workout_plan := Some workout_plans\<rparr>, True,
                          ''Loaded workout plan: '' @ plan_name selected_plan))))"

definition load_diet_plan :: "'f pylib \<Rightarrow> 'f session \<Rightarrow> int \<Rightarrow> 'f session \<times> bool \<times> string" where
  "load_diet_plan lib st plan_index =
     (if saved_diet_plans st = [] then (st, False, ''No saved diet plans'')
      else case py_index (saved_diet_plans st) plan_index of
             None \<Rightarrow> (st, False, ''list index out of range'')
           | Some selected_plan \<Rightarrow>
               (case py_iter (plan_data selected_plan) of
                  None \<Rightarrow> (st, False, load_error lib (plan_data selected_plan))
                | Some items \<Rightarrow>
                    (case construct_all (DietPlan_of lib) items of
                       Inl v \<Rightarrow> (st, False, load_error lib v)
                     | Inr diet_plans \<Rightarrow>
                         (st\<lparr>current_diet_plan := Some diet_plans\<rparr>, True,
                          ''Loaded diet plan: '' @ plan_name selected_plan))))"

definition plan_number :: "string \<Rightarrow> int option" where
  \<comment> \<open>The number after the colon, or after the word \<open>plan\<close> when there is no colon;
      \<open>None\<close> is the ValueError or IndexError of the \<open>try\<close>.\<close>
  "plan_number message =
     (case (if contains '':'' message then nth_opt (split_str '':'' message) 1
            else nth_opt (split_str ''plan'' message) 1) of
        None \<Rightarrow> None
      | Some number_part \<Rightarrow> py_int (strip number_part))"

definition no_saved_workouts :: string where
  "no_saved_workouts = ''You don't have any saved workout plans yet. Create a plan and then say 'save workout' to save it.''"

definition no_saved_diets :: string where
  "no_saved_diets = ''You don't have any saved diet plans yet. Create a plan and then say 'save diet' to save it.''"

definition which_workout :: string where
  "which_workout = ''I couldn't understand which plan to load. Please say 'load workout plan: 1' (using the number from the list).''"

definition which_diet :: string where
  "which_diet = ''I couldn't understand which plan to load. Please say 'load diet plan: 1' (using the number from the list).''"

definition app_load_workout :: "'f pylib \<Rightarrow> 'f session \<Rightarrow> string \<Rightarrow> 'f outcome" where
  "app_load_workout lib st message =
     (if saved_workout_plans st = [] then Reply st no_saved_workouts
      else case plan_number message of
             None \<Rightarrow> Reply st which_workout
           | Some n \<Rightarrow>
               (case load_workout_plan lib st (n - 1) of
                  (st', success, message_result) \<Rightarrow>
                    if success
                    then (case (case current_workout_plan st' of
                                  None \<Rightarrow> Inl not_iterable
                                | Some ws \<Rightarrow> format_workout_plan ws) of
                            Inl e \<Rightarrow> Reply st' apology
                          | Inr plan_details \<Rightarrow>
                              Reply st' (app_ok_mark @ '' '' @ message_result @ nl @ nl @ plan_details))
                    else Reply st' (app_fail_mark @ '' '' @ message_result)))"

definition app_load_diet :: "'f pylib \<Rightarrow> 'f session \<Rightarrow> string \<Rightarrow> 'f outcome" where
  "app_load_diet lib st message =
     (if saved_diet_plans st = [] then Reply st no_saved_diets
      else case plan_number message of
             None \<Rightarrow> Reply st which_diet
           | Some n \<Rightarrow>
               (case load_diet_plan lib st (n - 1) of
                  (st', success, message_result) \<Rightarrow>
                    if success
                    then (case (case current_diet_plan st' of
                                  None \<Rightarrow> Inl not_iterable
                                | Some ds \<Rightarrow> format_diet_plan lib ds) of
                            Inl e \<Rightarrow> Reply st' apology
                          | Inr plan_details \<Rightarrow>
                              Reply st' (app_ok_mark @ '' '' @ message_result @ nl @ nl @ plan_details))
                    else Reply st' (app_fail_mark @ '' '' @ message_result)))"

subsection \<open>Updating the profile\<close>

fun collect_updates :: "string list \<Rightarrow> (string \<times> string) list \<Rightarrow> (string \<times> string) list" where
  \<comment> \<open>\<open>for pair in update_text.split(","): if ":" in pair: key, value = pair.split(":", 1);
      updates[key.strip()] = value.strip()\<close>\<close>
  "collect_updates [] updates = updates"
| "collect_updates (pair # pairs) updates =
     collect_updates pairs
       (if contains '':'' pair
        then (case split_once '':'' pair of
                [key, value] \<Rightarrow> dict_set updates (strip key) (strip value)
              | _ \<Rightarrow> updates)
        else updates)"

definition parse_updates :: "string \<Rightarrow> (string \<times> string) list" where
  \<comment> \<open>From \<open>update_text = message.replace("update profile", "").strip()\<close> to \<open>updates\<close>.\<close>
  "parse_updates message =
     collect_updates (split_str '','' (strip (replace ''update profile'' [] message))) []"

fun merge_profile :: "(string \<times> 'f json) list \<Rightarrow> (string \<times> string) list \<Rightarrow> (string \<times> 'f json) list" where
  \<comment> \<open>\<open>for key, value in updates.items(): profile[key] = value\<close>\<close>
  "merge_profile profile [] = profile"
| "merge_profile profile (kv # kvs) = merge_profile (dict_set profile (fst kv) (JStr (snd kv))) kvs"

definition update_profile ::
  "int driver \<Rightarrow> 'f session \<Rightarrow> (string \<times> string) list \<Rightarrow> 'f session \<times> bool \<times> string" where
  \<comment> \<open>\<open>update_profile\<close> of \<open>app.py\<close>: merge, then save; an exception becomes its text.\<close>
  "update_profile d st profile_data =
     (let st' = st\<lparr>user_profile := merge_profile (user_profile st) profile_data\<rparr>
      in case save_profile d (user_id st') (user_profile st') of
           Inl e \<Rightarrow> (st', False, exn_text e)
         | Inr success \<Rightarrow>
             (st', success,
              if success then ''Profile updated successfully'' else ''Failed to update profile''))"

definition please_specify :: string where
  "please_specify = ''Please specify what to update, for example: update profile age: 30, weight: 70kg, goals: lose weight''"

definition app_update_profile :: "int driver \<Rightarrow> 'f session \<Rightarrow> string \<Rightarrow> 'f outcome" where
  "app_update_profile d st message =
     (let updates = parse_updates message
      in if updates = [] then Reply st please_specify
         else case update_profile d st updates of
                (st', success, message_result) \<Rightarrow>
                  if success
                  then Reply st' (''I've updated your profile with the following information:'' @ nl @ nl
                         @ concat (map (\<lambda>kv. ''- **'' @ fst kv @ ''**: '' @ snd kv @ nl) updates))
                  else Reply st' (app_fail_mark @ '' '' @ message_result))"

subsection \<open>The dispatcher\<close>

definition process_chat_message ::
  "'f pylib \<Rightarrow> (int \<Rightarrow> string \<Rightarrow> exn + 'f json option) \<Rightarrow> int driver \<Rightarrow> 'f session \<Rightarrow> string \<Rightarrow> 'f outcome" where
  "process_chat_message lib llm d st message =
     (case app_command (lower message) of
        CreateWorkout \<Rightarrow> app_create_workout lib llm st message
      | LoadWorkout \<Rightarrow> app_load_workout lib st message
      | LoadDiet \<Rightarrow> app_load_diet lib st message
      | UpdateProfile \<Rightarrow> app_update_profile d st message
      | c \<Rightarrow> Beyond c)"

section \<open>Command Interpreter of the terminal front end\<close>

text \<open>
  \<open>interactive_chat.py\<close>. The state is the \<open>context\<close> dictionary of \<open>InteractiveChat\<close>
  with its history and user id. Nothing catches an exception here: a handler returns the
  state it reached together with the reply or the exception.
\<close>

record 'f chat =
  ctx_user_profile :: "(string \<times> 'f json) list"
  ctx_current_workout_plan :: "WorkoutPlan list option"
  ctx_current_diet_plan :: "'f DietPlan list option"
  ctx_calendar_files :: "string list"
  ctx_saved_workout_plans :: "'f saved_plan list"
  ctx_saved_diet_plans :: "'f saved_plan list"
  chat_history :: "(string \<times> string) list"   \<comment> \<open>role and content\<close>
  chat_user_id :: int

definition chat_command :: "string \<Rightarrow> command" where
  \<comment> \<open>The \<open>if\<close>/\<open>elif\<close> chain of \<open>process_message\<close> on \<open>user_input.lower()\<close>.\<close>
  "chat_command m =
     (if startswith m ''create workout plan'' then CreateWorkout
      else if startswith m ''create diet plan'' then CreateDiet
      else if startswith m ''schedule workout'' then ScheduleWorkout
      else if startswith m ''export calendar'' \<or> startswith m ''create calendar'' then ExportCalendar
      else if startswith m ''view profile'' then ViewProfile
      else if startswith m ''update profile'' then UpdateProfile
      else if startswith m ''save workout'' then SaveWorkout
      else if startswith m ''save diet'' then SaveDiet
      else if startswith m ''list workout plans'' \<or> m = ''list workouts'' then ListWorkouts
      else if startswith m ''list diet plans'' \<or> m = ''list diets'' then ListDiets
      else if startswith m ''help'' then Help
      else if m = ''exit'' \<or> m = ''quit'' then Exit
      else FreeChat)"

definition chat_calendar_mark :: string where
  "chat_calendar_mark = [CHR 0xF0, CHR 0x9F, CHR 0x93, CHR 0x85]"

definition chat_clock_mark :: string where
  "chat_clock_mark = [CHR 0xE2, CHR 0x8F, CHR 0xB1, CHR 0xEF, CHR 0xB8, CHR 0x8F]"

definition chat_muscle_mark :: string where
  "chat_muscle_mark = [CHR 0xF0, CHR 0x9F, CHR 0x92, CHR 0xAA]"

definition say :: "'f chat \<Rightarrow> string \<Rightarrow> 'f chat \<times> (exn + string)" where
  \<comment> \<open>\<open>self.chat_history.append({"role": "assistant", "content": response}); return response\<close>\<close>
  "say c response = (c\<lparr>chat_history := chat_history c @ [(''assistant'', response)]\<rparr>, Inr response)"

definition chat_days :: "string \<Rightarrow> int" where
  \<comment> \<open>\<open>params["days"]\<close>\<close>
  "chat_days user_input =
     (if contains ''days:'' user_input
      then (case nth_opt (split_str ''days:'' user_input) 1 of
              None \<Rightarrow> 4
            | Some rest \<Rightarrow>
                (case first_word rest of
                   None \<Rightarrow> 4
                 | Some days_part \<Rightarrow>
                     (case py_int days_part of None \<Rightarrow> 4 | Some n \<Rightarrow> n)))
      else 4)"

definition chat_level :: "string \<Rightarrow> string" where
  \<comment> \<open>\<open>params["fitness_level"]\<close>: the first word after \<open>level:\<close>, whatever it is.\<close>
  "chat_level user_input =
     (if contains ''level:'' (lower user_input)
      then (case nth_opt (split_str ''level:'' (lower user_input)) 1 of
              None \<Rightarrow> ''intermediate''
            | Some rest \<Rightarrow>
                (case first_word (strip rest) of
                   None \<Rightarrow> ''intermediate''
                 | Some level \<Rightarrow> level))
      else ''intermediate'')"

definition handle_workout_creation ::
  "'f pylib \<Rightarrow> (int \<Rightarrow> string \<Rightarrow> exn + 'f json option) \<Rightarrow> 'f chat \<Rightarrow> string \<Rightarrow> 'f chat \<times> (exn + string)" where
  "handle_workout_creation lib llm c user_input =
     (let days = chat_days user_input; fitness_level = chat_level user_input
      in case create_workout_plan lib llm days fitness_level of
           Inl e \<Rightarrow> (c, Inl e)
         | Inr workout_plan \<Rightarrow>
             (let c' = c\<lparr>ctx_current_workout_plan := Some workout_plan\<rparr>
              in case format_days chat_calendar_mark chat_clock_mark chat_muscle_mark False workout_plan of
                   Inl e \<Rightarrow> (c', Inl e)
                 | Inr days_text \<Rightarrow>
                     say c' (''I've created a '' @ str_of_int days @ ''-day workout plan for ''
                       @ fitness_level @ '' fitness level:'' @ nl @ nl @ days_text
                       @ ''You can ask me to schedule these workouts, save the plan, export to a calendar file, or modify the plan if needed.'')))"

definition handle_profile_update :: "int driver \<Rightarrow> 'f chat \<Rightarrow> string \<Rightarrow> 'f chat \<times> (exn + string)" where
  "handle_profile_update d c user_input =
     (let updates = parse_updates user_input;
          c' = c\<lparr>ctx_user_profile := merge_profile (ctx_user_profile c) updates\<rparr>;
          response =
            ''I've updated your profile with the following information:'' @ nl @ nl
            @ concat (map (\<lambda>kv. ''- '' @ fst kv @ '': '' @ snd kv @ nl) updates)
            @ nl @ ''I'll use this information to better tailor your fitness recommendations.''
            @ (if chat_user_id c > 0 then nl @ ''Your profile has been saved to the database.'' else [])
      in if chat_user_id c > 0
         then (case save_profile d (chat_user_id c) (ctx_user_profile c') of
                 Inl e \<Rightarrow> (c', Inl e)
               | Inr save_success \<Rightarrow> say c' response)
         else say c' response)"

datatype 'f chat_outcome =
    Handled "'f chat" "exn + string"  \<comment> \<open>the state reached, and the reply or the exception\<close>
  | Elsewhere command                  \<comment> \<open>a handler that is not followed here\<close>

definition process_message ::
  "'f pylib \<Rightarrow> (int \<Rightarrow> string \<Rightarrow> exn + 'f json option) \<Rightarrow> int driver \<Rightarrow> 'f chat \<Rightarrow> string \<Rightarrow> 'f chat_outcome" where
  "process_message lib llm d c user_input =
     (let c1 = c\<lparr>chat_history := chat_history c @ [(''user'', user_input)]\<rparr>
      in case chat_command (lower user_input) of
           CreateWorkout \<Rightarrow>
             (case handle_workout_creation lib llm c1 user_input of (c2, r) \<Rightarrow> Handled c2 r)
         | UpdateProfile \<Rightarrow>
             (case handle_profile_update d c1 user_input of (c2, r) \<Rightarrow> Handled c2 r)
         | cmd \<Rightarrow> Elsewhere cmd)"

section \<open>Sample inputs\<close>

definition text_only :: "unit pylib" where
  \<comment> \<open>An instance for examples whose inputs hold no float and take the \<open>str\<close> of
      scalars only: there is one float, and every conversion the examples never reach
      fails.\<close>
  "text_only =
     \<lparr>str_other = (\<lambda>v. []), float_of_str = (\<lambda>s. None), int_of_float = (\<lambda>x. None),
      float_of_int = (\<lambda>i. ()), lax_int = (\<lambda>v. None), lax_float = (\<lambda>v. None),
      load_error = (\<lambda>v. ''invalid plan'')\<rparr>"

definition workout_backend :: "'f json option \<Rightarrow> int \<Rightarrow> string \<Rightarrow> exn + 'f json option" where
  \<comment> \<open>A backend that answers every workout prompt, always with the same decoded reply.\<close>
  "workout_backend r days fitness_level = Inr r"

definition diet_backend :: "'f json option \<Rightarrow> int \<Rightarrow> exn + 'f json option" where
  \<comment> \<open>A backend that answers every diet prompt, always with the same decoded reply.\<close>
  "diet_backend r daily_calories = Inr r"

definition rowing_day :: "unit json" where
  "rowing_day =
     JObj [(''day'', JStr ''Mon''),
           (''exercises'',
              JArr [JObj [(''name'', JStr ''Row''), (''sets'', JInt 3), (''reps'', JStr ''10'')]]),
           (''duration'', JStr ''30 min''),
           (''intensity'', JStr ''high'')]"

definition rowing_plan :: WorkoutPlan where
  "rowing_plan =
     \<lparr>day = ''Mon'', exercises = [[(''name'', ''Row''), (''sets'', ''3''), (''reps'', ''10'')]],
      duration = ''30 min'', intensity = ''high''\<rparr>"

definition day_only :: "unit json" where
  \<comment> \<open>An element without exercises, duration and intensity.\<close>
  "day_only = JObj [(''day'', JStr ''Tue'')]"

definition no_meal_survives :: "'f pylib \<Rightarrow> exn + 'f json option \<Rightarrow> bool" where
  \<comment> \<open>The backend answered and failed: its reply did not decode, cannot be iterated, or
      none of its elements became a meal.\<close>
  "no_meal_survives lib r =
     (case r of
        Inl e \<Rightarrow> False
      | Inr None \<Rightarrow> True
      | Inr (Some diet_data) \<Rightarrow>
          (case py_iter diet_data of
             None \<Rightarrow> True
           | Some items \<Rightarrow> list_all (\<lambda>x. diet_element lib x = None) items))"


definition has_keys :: "(string \<times> string) list \<Rightarrow> bool" where
  \<comment> \<open>An exercise with its name, sets and reps.\<close>
  "has_keys e \<longleftrightarrow>
     map_of e ''name'' \<noteq> None \<and> map_of e ''sets'' \<noteq> None \<and> map_of e ''reps'' \<noteq> None"

definition printable :: "WorkoutPlan \<Rightarrow> bool" where
  "printable w = list_all has_keys (exercises w)"

definition level_echo :: "int \<Rightarrow> string \<Rightarrow> exn + unit json option" where
  \<comment> \<open>A backend whose one-day reply carries, as its intensity, the fitness level the
      prompt named.\<close>
  "level_echo days fitness_level =
     Inr (Some (JArr [JObj [(''day'', JStr ''Day 1''), (''exercises'', JArr []),
                            (''duration'', JStr ''20 minutes''),
                            (''intensity'', JStr fitness_level)]]))"

definition no_store :: "int driver" where
  \<comment> \<open>No connection was made.\<close>
  "no_store =
     \<lparr>connected = False, cursor = None, execute = (\<lambda>k. None), fetchone = (\<lambda>k. Inr None),
      fetchall = Inr [], commit = None, rollback = None\<rparr>"


definition new_chat :: "unit chat" where
  "new_chat =
     \<lparr>ctx_user_profile = [], ctx_current_workout_plan = None, ctx_current_diet_plan = None,
      ctx_calendar_files = [], ctx_saved_workout_plans = [], ctx_saved_diet_plans = [],
      chat_history = [], chat_user_id = 0\<rparr>"

definition WorkoutPlan_dump :: "WorkoutPlan \<Rightarrow> 'f json" where
  \<comment> \<open>\<open>plan.model_dump()\<close>, as \<open>save_workout_plan\<close> stores it.\<close>
  "WorkoutPlan_dump w =
     JObj [(''day'', JStr (day w)),
           (''exercises'',
              JArr (map (\<lambda>e. JObj (map (\<lambda>kv. (fst kv, JStr (snd kv))) e)) (exercises w))),
           (''duration'', JStr (duration w)),
           (''intensity'', JStr (intensity w))]"

definition has_macros :: "'f DietPlan \<Rightarrow> bool" where
  \<comment> \<open>A meal with its protein, carbs and fat.\<close>
  "has_macros m \<longleftrightarrow>
     map_of (macros m) ''protein'' \<noteq> None \<and> map_of (macros m) ''carbs'' \<noteq> None
     \<and> map_of (macros m) ''fat'' \<noteq> None"

definition saved_two_days :: "unit saved_plan" where
  "saved_two_days =
     \<lparr>plan_id = 1, plan_name = ''2-day workout plan'',
      plan_data = JArr (map WorkoutPlan_dump (create_fallback_workout_plan 2))\<rparr>"

definition saved_rowing :: "unit saved_plan" where
  "saved_rowing =
     \<lparr>plan_id = 2, plan_name = ''rowing'', plan_data = JArr [WorkoutPlan_dump rowing_plan]\<rparr>"

definition porridge :: "unit DietPlan" where
  "porridge =
     \<lparr>meal_type = ''Breakfast'', foods = [''Porridge''], calories = 400,
      macros = [(''protein'', ()), (''carbs'', ()), (''fat'', ())]\<rparr>"

definition saved_porridge :: "unit saved_plan" where
  "saved_porridge =
     \<lparr>plan_id = 3, plan_name = ''porridge'',
      plan_data =
        JArr [JObj [(''meal_type'', JStr ''Breakfast''), (''foods'', JArr [JStr ''Porridge'']),
                    (''calories'', JInt 400),
                    (''macros'', JObj [(''protein'', JFloat ()), (''carbs'', JFloat ()),
                                       (''fat'', JFloat ())])]]\<rparr>"

definition with_saved :: "unit session" where
  \<comment> \<open>Two saved workout plans and one saved diet plan, a profile with two entries.\<close>
  "with_saved =
     \<lparr>current_workout_plan = None, current_diet_plan = None,
      user_profile = [(''age'', JStr ''30''), (''weight'', JStr ''70kg'')],
      saved_workout_plans = [saved_two_days, saved_rowing],
      saved_diet_plans = [saved_porridge], user_id = 1\<rparr>"

definition with_profile :: "unit chat" where
  "with_profile =
     \<lparr>ctx_user_profile = [(''age'', JStr ''30''), (''weight'', JStr ''70kg'')],
      ctx_current_workout_plan = None, ctx_current_diet_plan = None,
      ctx_calendar_files = [], ctx_saved_workout_plans = [], ctx_saved_diet_plans = [],
      chat_history = [], chat_user_id = 0\<rparr>"

definition first_of_january :: datetime where
  \<comment> \<open>2024-01-01, seven in the morning.\<close>
  "first_of_january =
     \<lparr>year = 2024, month = 1, day_of_month = 1, hour = 7, minute = 0, second = 0,
      microsecond = 0\<rparr>"

definition numbered_uid :: "nat \<Rightarrow> string" where
  "numbered_uid i = ''uid-'' @ str_of_nat i"

definition plain_env :: calendar_env where
  \<comment> \<open>A library that takes every call and a directory that can be written.\<close>
  "plain_env = \<lparr>uuid4 = numbered_uid, ics = (\<lambda>c. None), write_file = (\<lambda>p c. None)\<rparr>"

definition no_directory :: calendar_env where
  \<comment> \<open>As \<open>plain_env\<close>, but no file can be opened for writing.\<close>
  "no_directory =
     \<lparr>uuid4 = numbered_uid, ics = (\<lambda>c. None),
      write_file = (\<lambda>p c. Some (Exn OtherError ''No such file or directory''))\<rparr>"

fun library_accepts :: "calendar_env \<Rightarrow> datetime \<Rightarrow> int \<Rightarrow> nat \<Rightarrow> WorkoutPlan list \<Rightarrow> bool" where
  \<comment> \<open>The calendar library raises at none of the calls that the loop makes for these
      days, from index \<open>i\<close> on, with the duration \<open>minutes\<close>.\<close>
  "library_accepts env start_date minutes i [] = True"
| "library_accepts env start_date minutes i (workout # rest) =
     (ics env (Set_name (''Workout: '' @ day workout)) = None
      \<and> (case workout_description workout of
            Inl e \<Rightarrow> True
          | Inr description \<Rightarrow>
              ics env (Set_description description) = None
              \<and> (case plus_days start_date i of
                    Inl e \<Rightarrow> True
                  | Inr event_date \<Rightarrow>
                      ics env (Set_begin event_date) = None
                      \<and> ics env (Set_duration minutes) = None
                      \<and> ics env (Set_uid (uuid4 env i)) = None
                      \<and> ics env (Events_add
                            (workout_event env i workout description event_date minutes)) = None))
      \<and> library_accepts env start_date minutes (Suc i) rest)"



definition server_closed :: exn where
  "server_closed = Exn DatabaseError ''server closed the connection unexpectedly''"

definition already_closed :: exn where
  "already_closed = Exn DatabaseError ''connection already closed''"

definition connection_lost :: "'r driver" where
  \<comment> \<open>The connection drops during the call: the statement raises an error of the
      driver, and so does the rollback on the connection that is now closed.\<close>
  "connection_lost =
     \<lparr>connected = True, cursor = None, execute = (\<lambda>k. Some server_closed),
      fetchone = (\<lambda>k. Inr None), fetchall = Inr [], commit = None,
      rollback = Some already_closed\<rparr>"

definition constraint_violated :: "'r driver" where
  \<comment> \<open>The statement is refused by the store; the connection stays usable.\<close>
  "constraint_violated =
     \<lparr>connected = True, cursor = None,
      execute = (\<lambda>k. Some (Exn DatabaseError ''violates foreign key constraint'')),
      fetchone = (\<lambda>k. Inr None), fetchall = Inr [], commit = None, rollback = None\<rparr>"

section \<open>Properties of the Plan Generator\<close>

lemma workout_plans_of_map_filter:
  "workout_plans_of lib xs = List.map_filter (workout_element lib) xs"
  by (induction xs) (auto split: option.splits)

lemma workout_plans_of_empty:
  "workout_plans_of lib xs = [] \<longleftrightarrow> (\<forall>x\<in>set xs. workout_element lib x = None)"
  by (induction xs) (auto split: option.splits)

lemma diet_plans_of_empty:
  "diet_plans_of lib xs = [] \<longleftrightarrow> (\<forall>x\<in>set xs. diet_element lib x = None)"
  by (induction xs) (auto split: option.splits)

lemma workout_element_rowing_day: "workout_element text_only rowing_day = Some rowing_plan"
  by (simp add: rowing_day_def rowing_plan_def workout_element_def stringify_exercises_def
      stringify_exercise_def dict_set_def WorkoutPlan_of_def required_def str_field_def
      exercises_field_def dict_str_field_def str_items_def py_str_def str_of_int_def
      str_of_nat.simps digit_char_def)

lemma workout_element_day_only: "workout_element text_only day_only = None"
  by (simp add: day_only_def workout_element_def stringify_exercises_def WorkoutPlan_of_def
      required_def str_field_def)

text \<open>
  Claim C1, as stated: whenever an element of the backend's reply fails typed
  construction, \<open>create_workout_plan\<close> returns the fallback plan, never the elements that
  did validate. It fails: of the two elements \<open>rowing_day\<close> and \<open>day_only\<close> the second has
  no exercises, duration or intensity and is dropped, and the caller receives the
  one-element list of the first, which is not the two-day fallback.
\<close>

theorem create_workout_plan_partial_list:
  "workout_element text_only day_only = None
   \<and> create_workout_plan text_only (workout_backend (Some (JArr [rowing_day, day_only]))) 2 ''beginner''
       = Inr [rowing_plan]
   \<and> create_workout_plan text_only (workout_backend (Some (JArr [rowing_day, day_only]))) 2 ''beginner''
       \<noteq> Inr (create_fallback_workout_plan 2)"
proof -
  have "length (create_fallback_workout_plan 2) = 2"
    by (simp add: create_fallback_workout_plan_def)
  then have "length [rowing_plan] \<noteq> length (create_fallback_workout_plan 2)"
    by simp
  then have "[rowing_plan] \<noteq> create_fallback_workout_plan 2"
    by (rule contrapos_nn) simp
  then show ?thesis
    by (simp add: create_workout_plan_def bind_exn_def workout_backend_def py_iter_def
        workout_element_rowing_day workout_element_day_only)
qed

lemma create_workout_plan_on_list:
  assumes "llm days fitness_level = Inr (Some (JArr items))"
  shows "create_workout_plan lib llm days fitness_level =
           (if \<exists>x\<in>set items. workout_element lib x \<noteq> None
            then Inr (List.map_filter (workout_element lib) items)
            else Inr (create_fallback_workout_plan days))"
proof (cases "workout_plans_of lib items = []")
  case True
  then have "\<not> (\<exists>x\<in>set items. workout_element lib x \<noteq> None)"
    by (simp add: workout_plans_of_empty)
  with True assms show ?thesis
    by (simp add: create_workout_plan_def bind_exn_def py_iter_def)
next
  case False
  then have "\<exists>x\<in>set items. workout_element lib x \<noteq> None"
    by (simp add: workout_plans_of_empty)
  with False assms show ?thesis
    by (simp add: create_workout_plan_def bind_exn_def py_iter_def workout_plans_of_map_filter)
qed

lemma create_workout_plan_undecodable:
  assumes "llm days fitness_level = Inr None"
  shows "create_workout_plan lib llm days fitness_level = Inr (create_fallback_workout_plan days)"
  using assms by (simp add: create_workout_plan_def bind_exn_def)

lemma create_workout_plan_not_iterable:
  assumes "llm days fitness_level = Inr (Some v)" and "py_iter v = None"
  shows "create_workout_plan lib llm days fitness_level = Inr (create_fallback_workout_plan days)"
  using assms by (simp add: create_workout_plan_def bind_exn_def)

text \<open>
  Claim C1, amended: when the reply decodes to a list, each element that fails coercion
  or typed construction is dropped on its own; the caller receives the elements that
  validated, in their order, when there is at least one, and the fallback plan for
  \<open>days\<close> days only when there is none. A reply that does not decode, and a reply that
  decodes to a value that cannot be iterated, give the fallback plan too.
\<close>

theorem create_workout_plan_drops_failed_elements:
  "(llm days fitness_level = Inr (Some (JArr items))
      \<longrightarrow> create_workout_plan lib llm days fitness_level =
            (if \<exists>x\<in>set items. workout_element lib x \<noteq> None
             then Inr (List.map_filter (workout_element lib) items)
             else Inr (create_fallback_workout_plan days)))
   \<and> (llm days fitness_level = Inr None
      \<longrightarrow> create_workout_plan lib llm days fitness_level
            = Inr (create_fallback_workout_plan days))
   \<and> (llm days fitness_level = Inr (Some v) \<and> py_iter v = None
      \<longrightarrow> create_workout_plan lib llm days fitness_level
            = Inr (create_fallback_workout_plan days))"
proof (intro conjI impI)
  assume "llm days fitness_level = Inr (Some (JArr items))"
  then show "create_workout_plan lib llm days fitness_level =
               (if \<exists>x\<in>set items. workout_element lib x \<noteq> None
                then Inr (List.map_filter (workout_element lib) items)
                else Inr (create_fallback_workout_plan days))"
    by (rule create_workout_plan_on_list)
next
  assume "llm days fitness_level = Inr None"
  then show "create_workout_plan lib llm days fitness_level
               = Inr (create_fallback_workout_plan days)"
    by (rule create_workout_plan_undecodable)
next
  assume a: "llm days fitness_level = Inr (Some v) \<and> py_iter v = None"
  from a[THEN conjunct1] a[THEN conjunct2]
  show "create_workout_plan lib llm days fitness_level
          = Inr (create_fallback_workout_plan days)"
    by (rule create_workout_plan_not_iterable)
qed

theorem create_workout_plan_drops_failed_elements_witness:
  "workout_backend (Some (JArr [rowing_day, day_only])) 2 ''beginner''
     = Inr (Some (JArr [rowing_day, day_only]))
   \<and> create_workout_plan text_only (workout_backend (Some (JArr [rowing_day, day_only]))) 2 ''beginner''
     = Inr [rowing_plan]
   \<and> workout_backend None 2 ''beginner'' = (Inr None :: exn + unit json option)
   \<and> create_workout_plan text_only (workout_backend None) 2 ''beginner''
     = Inr (create_fallback_workout_plan 2)
   \<and> workout_backend (Some (JInt 7)) 2 ''beginner'' = (Inr (Some (JInt 7)) :: exn + unit json option)
   \<and> py_iter (JInt 7 :: unit json) = None
   \<and> create_workout_plan text_only (workout_backend (Some (JInt 7))) 2 ''beginner''
     = Inr (create_fallback_workout_plan 2)"
proof -
  have h1: "workout_backend (Some (JArr [rowing_day, day_only])) 2 ''beginner''
              = Inr (Some (JArr [rowing_day, day_only]))"
    by (simp add: workout_backend_def)
  have h2: "workout_backend None 2 ''beginner'' = (Inr None :: exn + unit json option)"
    by (simp add: workout_backend_def)
  have h3: "workout_backend (Some (JInt 7)) 2 ''beginner''
              = (Inr (Some (JInt 7)) :: exn + unit json option)"
    by (simp add: workout_backend_def)
  have h4: "py_iter (JInt 7 :: unit json) = None"
    by (simp add: py_iter_def)
  have a: "create_workout_plan text_only (workout_backend (Some (JArr [rowing_day, day_only]))) 2
             ''beginner'' = Inr [rowing_plan]"
    using h1 create_workout_plan_drops_failed_elements
            [where llm = "workout_backend (Some (JArr [rowing_day, day_only]))" and days = 2
               and fitness_level = "''beginner''" and items = "[rowing_day, day_only]"
               and lib = text_only, THEN conjunct1]
    by (simp add: workout_element_rowing_day workout_element_day_only)
  have b: "create_workout_plan text_only (workout_backend None) 2 ''beginner''
             = Inr (create_fallback_workout_plan 2)"
    using h2 create_workout_plan_drops_failed_elements
            [where llm = "workout_backend None" and days = 2 and fitness_level = "''beginner''"
               and lib = text_only, THEN conjunct2, THEN conjunct1]
    by simp
  have c: "create_workout_plan text_only (workout_backend (Some (JInt 7))) 2 ''beginner''
             = Inr (create_fallback_workout_plan 2)"
    using h3 h4 create_workout_plan_drops_failed_elements
            [where llm = "workout_backend (Some (JInt 7))" and days = 2
               and fitness_level = "''beginner''" and v = "JInt 7" and lib = text_only,
             THEN conjunct2, THEN conjunct2]
    by simp
  from h1 a h2 b h3 h4 c show ?thesis by (intro conjI)
qed

text \<open>
  Claim C2: for every \<open>days \<ge> 0\<close>, when the backend returns text that does not decode as
  JSON, \<open>create_workout_plan\<close> returns the fallback plan: exactly \<open>days\<close> records, the
  record at index \<open>i\<close> labelled \<open>Day i+1\<close>.
\<close>

theorem create_workout_plan_fallback_length:
  assumes "0 \<le> days" and "llm days fitness_level = Inr None"
  shows "\<exists>plans. create_workout_plan lib llm days fitness_level = Inr plans
           \<and> plans = create_fallback_workout_plan days
           \<and> int (length plans) = days
           \<and> (\<forall>i < nat days. day (plans ! i) = ''Day '' @ str_of_int (int i + 1))"
  using assms
  by (simp add: create_workout_plan_def bind_exn_def create_fallback_workout_plan_def
      fallback_day_def)

theorem create_workout_plan_fallback_length_witness:
  "(0::int) \<le> 3 \<and> workout_backend None 3 ''advanced'' = (Inr None :: exn + unit json option)
   \<and> (\<exists>plans. create_workout_plan text_only (workout_backend None) 3 ''advanced'' = Inr plans
          \<and> length plans = 3 \<and> map day plans = [''Day 1'', ''Day 2'', ''Day 3''])"
proof -
  have h: "workout_backend None 3 ''advanced'' = (Inr None :: exn + unit json option)"
    by (simp add: workout_backend_def)
  have "create_workout_plan text_only (workout_backend None) 3 ''advanced''
          = Inr (create_fallback_workout_plan 3)"
    using h create_workout_plan_fallback_length
            [where llm = "workout_backend None" and days = 3 and fitness_level = "''advanced''"
               and lib = text_only]
    by simp
  moreover have "map day (create_fallback_workout_plan 3) = [''Day 1'', ''Day 2'', ''Day 3'']"
    by code_simp
  moreover have "length (create_fallback_workout_plan 3) = 3"
    by (simp add: create_fallback_workout_plan_def)
  ultimately show ?thesis using h by simp
qed

text \<open>
  Claim C3: when the backend fails (its reply does not decode, or no element survives
  validation), \<open>create_diet_plan\<close> returns the four fallback meals Breakfast, Lunch,
  Dinner and Snack with 500, 700, 600 and 300 calories, whatever \<open>daily_calories\<close> is.
\<close>

theorem create_diet_plan_fallback:
  assumes "no_meal_survives lib (llm daily_calories)"
  shows "\<exists>meals. create_diet_plan lib llm daily_calories = Inr meals
           \<and> meals = create_fallback_diet_plan lib
           \<and> map (\<lambda>m. (meal_type m, calories m)) meals
               = [(''Breakfast'', 500), (''Lunch'', 700), (''Dinner'', 600), (''Snack'', 300)]"
proof -
  have "create_diet_plan lib llm daily_calories = Inr (create_fallback_diet_plan lib)"
  proof (cases "llm daily_calories")
    case (Inl e)
    with assms show ?thesis by (simp add: no_meal_survives_def)
  next
    case (Inr response)
    show ?thesis
    proof (cases response)
      case None
      with Inr show ?thesis by (simp add: create_diet_plan_def bind_exn_def)
    next
      case (Some diet_data)
      show ?thesis
      proof (cases "py_iter diet_data")
        case None
        with Inr Some show ?thesis by (simp add: create_diet_plan_def bind_exn_def)
      next
        case iter: (Some items)
        with assms Inr Some have "diet_plans_of lib items = []"
          by (simp add: no_meal_survives_def diet_plans_of_empty list_all_iff)
        with Inr Some iter show ?thesis by (simp add: create_diet_plan_def bind_exn_def)
      qed
    qed
  qed
  then show ?thesis
    by (simp add: create_fallback_diet_plan_def fallback_meal_def)
qed

theorem create_diet_plan_fallback_witness:
  "no_meal_survives text_only (diet_backend (Some (JArr [JNull, JStr ''soup''])) 1800)
   \<and> (\<exists>meals.
         create_diet_plan text_only (diet_backend (Some (JArr [JNull, JStr ''soup'']))) 1800 = Inr meals
         \<and> map (\<lambda>m. (meal_type m, calories m)) meals
             = [(''Breakfast'', 500), (''Lunch'', 700), (''Dinner'', 600), (''Snack'', 300)])"
proof -
  have h: "no_meal_survives text_only (diet_backend (Some (JArr [JNull, JStr ''soup''])) 1800)"
    by (simp add: no_meal_survives_def diet_backend_def py_iter_def diet_element_def)
  have "\<exists>meals.
          create_diet_plan text_only (diet_backend (Some (JArr [JNull, JStr ''soup'']))) 1800 = Inr meals
          \<and> map (\<lambda>m. (meal_type m, calories m)) meals
              = [(''Breakfast'', 500), (''Lunch'', 700), (''Dinner'', 600), (''Snack'', 300)]"
    using create_diet_plan_fallback
            [where llm = "diet_backend (Some (JArr [JNull, JStr ''soup'']))"
               and daily_calories = 1800 and lib = text_only, OF h]
    by (elim exE conjE) (rule exI, simp)
  with h show ?thesis by (rule conjI)
qed

section \<open>Properties of the parameter extraction\<close>

lemma exercise_line_ok: "has_keys e \<Longrightarrow> \<exists>l. exercise_line e = Inr l"
  by (auto simp: has_keys_def exercise_line_def item_def bind_exn_def)

lemma exercise_lines_ok: "list_all has_keys es \<Longrightarrow> \<exists>t. exercise_lines rest es = Inr t"
proof (induction es)
  case Nil
  then show ?case by simp
next
  case (Cons e es)
  then obtain l t where "exercise_line e = Inr l" "exercise_lines rest es = Inr t"
    using exercise_line_ok by fastforce
  then show ?case by (simp add: bind_exn_def)
qed

lemma format_days_ok: "list_all printable ws \<Longrightarrow> \<exists>t. format_days a b c rest ws = Inr t"
proof (induction ws)
  case Nil
  then show ?case by simp
next
  case (Cons w ws)
  then obtain l t where
    "exercise_lines rest (exercises w) = Inr l" "format_days a b c rest ws = Inr t"
    using exercise_lines_ok[of "exercises w" rest] by (auto simp: printable_def)
  then show ?case by (simp add: bind_exn_def)
qed


lemma printable_fallback: "list_all printable (create_fallback_workout_plan days)"
  by (simp add: create_fallback_workout_plan_def list_all_iff printable_def fallback_day_def
      has_keys_def)




lemma app_level_valid: "app_level message \<in> set [''beginner'', ''intermediate'', ''advanced'']"
  by (auto simp: app_level_def split: option.splits)

text \<open>
  Claim C6, at the terminal front end: the word after \<open>level:\<close> is passed to the Plan
  Generator as it is. For \<open>create workout plan level: expert\<close> the generator is asked for
  the level \<open>expert\<close>, which is none of beginner, intermediate and advanced; the web
  front end, on the same message, asks for \<open>intermediate\<close>.
\<close>

theorem chat_level_not_validated:
  "chat_command (lower ''create workout plan level: expert'') = CreateWorkout
   \<and> chat_level ''create workout plan level: expert'' = ''expert''
   \<and> ''expert'' \<notin> set [''beginner'', ''intermediate'', ''advanced'']
   \<and> (\<exists>c' text.
         process_message text_only level_echo no_store new_chat ''create workout plan level: expert''
           = Handled c' (Inr text)
         \<and> map intensity (case ctx_current_workout_plan c' of None \<Rightarrow> [] | Some ws \<Rightarrow> ws)
             = [''expert''])
   \<and> app_level ''create workout plan level: expert'' = ''intermediate''"
proof -
  let ?m = "''create workout plan level: expert''"
  have c: "chat_command (lower ?m) = CreateWorkout" by code_simp
  have cl: "chat_level ?m = ''expert''" by code_simp
  have cd: "chat_days ?m = 4" by code_simp
  have al: "app_level ?m = ''intermediate''" by code_simp
  have el: "workout_element text_only
              (JObj [(''day'', JStr ''Day 1''), (''exercises'', JArr []),
                     (''duration'', JStr ''20 minutes''), (''intensity'', JStr ''expert'')])
            = Some \<lparr>day = ''Day 1'', exercises = [], duration = ''20 minutes'',
                    intensity = ''expert''\<rparr>"
    by (simp add: workout_element_def stringify_exercises_def dict_set_def WorkoutPlan_of_def
        required_def str_field_def exercises_field_def)
  have gen: "create_workout_plan text_only level_echo 4 ''expert''
               = Inr [\<lparr>day = ''Day 1'', exercises = [], duration = ''20 minutes'',
                       intensity = ''expert''\<rparr>]"
    by (simp add: create_workout_plan_def bind_exn_def level_echo_def py_iter_def el)
  have "\<exists>c' text.
          process_message text_only level_echo no_store new_chat ?m = Handled c' (Inr text)
          \<and> map intensity (case ctx_current_workout_plan c' of None \<Rightarrow> [] | Some ws \<Rightarrow> ws)
              = [''expert'']"
    using c cl cd gen
    by (simp add: process_message_def handle_workout_creation_def Let_def say_def bind_exn_def)
  with c cl al show ?thesis by simp
qed

section \<open>Properties of the command interpreter\<close>

subsection \<open>Numbers as text\<close>

lemma below_ten:
  "k < (10::nat) \<Longrightarrow> k = 0 \<or> k = 1 \<or> k = 2 \<or> k = 3 \<or> k = 4 \<or> k = 5 \<or> k = 6 \<or> k = 7 \<or> k = 8 \<or> k = 9"
  by arith

lemma digit_char_facts:
  "is_digit (digit_char n) \<and> digit_val (digit_char n) = n mod 10 \<and> \<not> is_space (digit_char n)
   \<and> \<not> is_int_space (digit_char n)
   \<and> digit_char n \<noteq> CHR ''-'' \<and> digit_char n \<noteq> CHR ''+'' \<and> digit_char n \<noteq> CHR '':''"
proof -
  have "n mod 10 < 10" by simp
  from below_ten[OF this] show ?thesis
    by (elim disjE)
      (simp_all add: digit_char_def is_digit_def digit_val_def is_space_def is_int_space_def)
qed

lemma parse_digits_snoc:
  "parse_digits acc s = Some a \<Longrightarrow> is_digit d \<Longrightarrow> parse_digits acc (s @ [d]) = Some (10 * a + digit_val d)"
  by (induction acc s rule: parse_digits.induct) (auto split: if_splits)

lemma parse_nat_snoc:
  "parse_nat s = Some a \<Longrightarrow> is_digit d \<Longrightarrow> parse_nat (s @ [d]) = Some (10 * a + digit_val d)"
  by (cases s) (auto simp: parse_nat_def parse_digits_snoc split: if_splits)

lemma parse_nat_str_of_nat: "parse_nat (str_of_nat n) = Some n"
proof (induction n rule: str_of_nat.induct)
  case (1 n)
  show ?case
  proof (cases "n < 10")
    case True
    then show ?thesis
      using digit_char_facts[of n] by (subst str_of_nat.simps) (simp add: parse_nat_def)
  next
    case False
    then have "parse_nat (str_of_nat (n div 10)) = Some (n div 10)" using 1 by simp
    then have "parse_nat (str_of_nat (n div 10) @ [digit_char n]) = Some (10 * (n div 10) + n mod 10)"
      using digit_char_facts[of n] by (simp add: parse_nat_snoc)
    with False show ?thesis by (subst str_of_nat.simps) simp
  qed
qed

lemma str_of_nat_chars:
  "c \<in> set (str_of_nat n)
   \<Longrightarrow> is_digit c \<and> \<not> is_space c \<and> \<not> is_int_space c \<and> c \<noteq> CHR '':''"
proof (induction n rule: str_of_nat.induct)
  case (1 n)
  show ?case
  proof (cases "n < 10")
    case True
    with 1(2) show ?thesis using digit_char_facts[of n] by (subst (asm) str_of_nat.simps) auto
  next
    case False
    from 1(2) False have "c \<in> set (str_of_nat (n div 10)) \<or> c = digit_char n"
      by (subst (asm) str_of_nat.simps) auto
    with 1(1) False show ?thesis using digit_char_facts[of n] by auto
  qed
qed

lemma str_of_nat_nonempty: "str_of_nat n \<noteq> []"
  by (subst str_of_nat.simps) simp

lemma nothing_to_strip:
  assumes a: "\<forall>c\<in>set s. \<not> P c"
  shows "rev (dropWhile P (rev (dropWhile P s))) = s"
proof -
  from a have "dropWhile P s = s" by (cases s) auto
  moreover from a have "dropWhile P (rev s) = rev s"
    by (cases "rev s") (auto dest: arg_cong[where f=set])
  ultimately show ?thesis by simp
qed

lemma strip_no_space: "\<forall>c\<in>set s. \<not> is_space c \<Longrightarrow> strip s = s"
  unfolding strip_def by (rule nothing_to_strip)

lemma py_int_str_of_nat: "py_int (str_of_nat n) = Some (int n)"
proof -
  have s: "rev (dropWhile is_int_space (rev (dropWhile is_int_space (str_of_nat n)))) = str_of_nat n"
    using str_of_nat_chars by (intro nothing_to_strip) blast
  obtain c cs where cs: "str_of_nat n = c # cs" using str_of_nat_nonempty by (cases "str_of_nat n") auto
  then have "is_digit c" using str_of_nat_chars[of c n] by simp
  then have "c \<noteq> CHR ''-''" "c \<noteq> CHR ''+''" by (auto simp: is_digit_def)
  then show ?thesis using s cs parse_nat_str_of_nat[of n] by (simp add: py_int_def)
qed

lemma split_single_absent: "c \<notin> set s \<Longrightarrow> split_str [c] s = [s]"
  by (induction s) (auto simp: startswith_def)

lemma strip_lead_space: "strip (CHR '' '' # s) = strip s"
  by (simp add: strip_def is_space_def)

lemma plan_number_load:
  assumes m: "m = ''load workout plan: '' @ str_of_nat n"
  shows "plan_number m = Some (int n)" and "app_command (lower m) = LoadWorkout"
proof -
  have nc: "CHR '':'' \<notin> set (str_of_nat n)" using str_of_nat_chars by blast
  have c: "contains '':'' m" unfolding m by (simp add: startswith_def)
  have sp: "split_str '':'' m = [''load workout plan'', CHR '' '' # str_of_nat n]"
    unfolding m using nc by (simp add: startswith_def split_single_absent)
  have st: "strip (CHR '' '' # str_of_nat n) = str_of_nat n"
    using str_of_nat_chars by (simp add: strip_lead_space strip_no_space)
  show "plan_number m = Some (int n)"
    by (simp add: plan_number_def c sp nth_opt_def st py_int_str_of_nat)
  have "lower m = ''load workout plan: '' @ lower (str_of_nat n)"
    unfolding m by (simp add: lower_def lower_char_def)
  then show "app_command (lower m) = LoadWorkout"
    by (simp add: app_command_def startswith_def)
qed

subsection \<open>Saved plans\<close>

lemma str_items_dump: "str_items (map (\<lambda>kv. (fst kv, JStr (snd kv))) e) = Some e"
  by (induction e) (auto simp: str_items_def str_field_def)

lemma exercises_dump:
  "those (map (dict_str_field \<circ> (\<lambda>e. JObj (map (\<lambda>kv. (fst kv, JStr (snd kv))) e))) es) = Some es"
  by (induction es) (auto simp: dict_str_field_def str_items_dump)

lemma WorkoutPlan_of_dump: "WorkoutPlan_of (WorkoutPlan_dump w) = Some w"
  by (simp add: WorkoutPlan_of_def WorkoutPlan_dump_def required_def str_field_def
      exercises_field_def exercises_dump)

lemma construct_all_dump: "construct_all WorkoutPlan_of (map WorkoutPlan_dump ws) = Inr ws"
  by (induction ws) (auto simp: WorkoutPlan_of_dump)

lemma py_index_in_range:
  "1 \<le> n \<Longrightarrow> n \<le> length xs \<Longrightarrow> py_index xs (int n - 1) = Some (xs ! (n - 1))"
  by (auto simp: py_index_def nat_diff_distrib' int_ops)

lemma py_index_beyond: "length xs < n \<Longrightarrow> py_index xs (int n - 1) = None"
  by (auto simp: py_index_def)

lemma py_index_minus_one: "xs \<noteq> [] \<Longrightarrow> py_index xs (- 1) = Some (last xs)"
  by (auto simp: py_index_def last_conv_nth nat_diff_distrib' int_ops Suc_le_eq)

lemma load_in_range:
  fixes st :: "'f session"
  assumes "1 \<le> n" "n \<le> length (saved_workout_plans st)"
    and "py_iter (plan_data (saved_workout_plans st ! (n - 1))) = Some items"
    and "construct_all WorkoutPlan_of items = Inr ws"
  shows "\<exists>text. process_chat_message lib llm d st (''load workout plan: '' @ str_of_nat n)
           = Reply (st\<lparr>current_workout_plan := Some ws\<rparr>) text"
proof -
  define m where "m = ''load workout plan: '' @ str_of_nat n"
  have pn: "plan_number m = Some (int n)" and cmd: "app_command (lower m) = LoadWorkout"
    using plan_number_load[OF m_def] by simp_all
  have ne: "saved_workout_plans st \<noteq> []" using assms(1,2) by auto
  have ld: "load_workout_plan lib st (int n - 1)
        = (st\<lparr>current_workout_plan := Some ws\<rparr>, True,
           ''Loaded workout plan: '' @ plan_name (saved_workout_plans st ! (n - 1)))"
    using assms ne by (simp add: load_workout_plan_def py_index_in_range)
  show ?thesis
    unfolding m_def[symmetric]
    using cmd pn ne ld
    by (auto simp: process_chat_message_def app_load_workout_def split: sum.splits)
qed

lemma load_beyond:
  fixes st :: "'f session"
  assumes "length (saved_workout_plans st) < n"
  shows "process_chat_message lib llm d st (''load workout plan: '' @ str_of_nat n)
           = Reply st (if saved_workout_plans st = [] then no_saved_workouts
                       else app_fail_mark @ '' list index out of range'')"
proof -
  define m where "m = ''load workout plan: '' @ str_of_nat n"
  have pn: "plan_number m = Some (int n)" and cmd: "app_command (lower m) = LoadWorkout"
    using plan_number_load[OF m_def] by simp_all
  show ?thesis
    unfolding m_def[symmetric]
    using cmd pn assms
    by (simp add: process_chat_message_def app_load_workout_def load_workout_plan_def py_index_beyond)
qed

lemma load_not_number:
  assumes "app_command (lower message) = LoadWorkout" "plan_number message = None"
  shows "process_chat_message lib llm d st message
           = Reply st (if saved_workout_plans st = [] then no_saved_workouts else which_workout)"
  using assms by (simp add: process_chat_message_def app_load_workout_def)

lemma load_replies:
  assumes "app_command (lower message) = LoadWorkout"
  shows "\<exists>st' text. process_chat_message lib llm d st message = Reply st' text"
  using assms
  by (auto simp: process_chat_message_def app_load_workout_def split: option.splits prod.splits sum.splits)

subsection \<open>Dictionaries\<close>

lemma map_of_overwrite:
  "map_of (map (\<lambda>kv. if fst kv = k then (k, v) else kv) kvs) x
     = (if x = k \<and> k \<in> fst ` set kvs then Some v else map_of kvs x)"
  by (induction kvs) (force simp: image_iff)+

lemma map_of_dict_set: "map_of (dict_set kvs k v) = (map_of kvs)(k \<mapsto> v)"
proof (rule ext)
  fix x
  show "map_of (dict_set kvs k v) x = ((map_of kvs)(k \<mapsto> v)) x"
  proof (cases "k \<in> fst ` set kvs")
    case True
    then show ?thesis by (simp add: dict_set_def map_of_overwrite)
  next
    case False
    then have "map_of kvs k = None" by (simp add: map_of_eq_None_iff)
    with False show ?thesis by (auto simp: dict_set_def map_add_def split: option.splits)
  qed
qed

lemma merge_age_goals:
  "map_of (merge_profile p [(''age'', ''31''), (''goals'', ''lose fat'')])
     = (map_of p)(''age'' \<mapsto> JStr ''31'', ''goals'' \<mapsto> JStr ''lose fat'')"
  by (simp add: map_of_dict_set)

subsection \<open>Loading a saved plan by its number\<close>

text \<open>
  Claim C4: for every session and every message \<open>load workout plan: n\<close>, (1) when
  \<open>1 \<le> n \<le>\<close> the number of saved plans and the payload saved at index \<open>n - 1\<close> reads
  back as the plan \<open>ws\<close>, the command sets the current workout plan to \<open>ws\<close>; (2) when
  \<open>n\<close> is beyond the list, and (3) when the text after the command is not an integer,
  the session is unchanged and the reply is an error message; (4) every
  \<open>load workout\<close> message is answered by a reply, never by an exception.
\<close>

theorem load_workout_plan_by_number:
  fixes st :: "'f session"
  shows
    "(1 \<le> n \<and> n \<le> length (saved_workout_plans st)
        \<and> py_iter (plan_data (saved_workout_plans st ! (n - 1))) = Some items
        \<and> construct_all WorkoutPlan_of items = Inr ws
      \<longrightarrow> (\<exists>text. process_chat_message lib llm d st (''load workout plan: '' @ str_of_nat n)
                    = Reply (st\<lparr>current_workout_plan := Some ws\<rparr>) text))
     \<and> (length (saved_workout_plans st) < k
      \<longrightarrow> process_chat_message lib llm d st (''load workout plan: '' @ str_of_nat k)
            = Reply st (if saved_workout_plans st = [] then no_saved_workouts
                        else app_fail_mark @ '' list index out of range''))
     \<and> (app_command (lower message) = LoadWorkout \<and> plan_number message = None
      \<longrightarrow> process_chat_message lib llm d st message
            = Reply st (if saved_workout_plans st = [] then no_saved_workouts else which_workout))
     \<and> (app_command (lower message) = LoadWorkout
      \<longrightarrow> (\<exists>st' text. process_chat_message lib llm d st message = Reply st' text))"
  using load_in_range[of n st items ws lib llm d] load_beyond[of st k lib llm d]
    load_not_number[of message lib llm d st] load_replies[of message lib llm d st]
  by blast

theorem load_workout_plan_by_number_witness:
  "(1::nat) \<le> 2 \<and> 2 \<le> length (saved_workout_plans with_saved)
   \<and> py_iter (plan_data (saved_workout_plans with_saved ! (2 - 1)))
       = Some [WorkoutPlan_dump rowing_plan]
   \<and> construct_all WorkoutPlan_of [WorkoutPlan_dump rowing_plan :: unit json] = Inr [rowing_plan]
   \<and> (\<exists>text. process_chat_message text_only (workout_backend None) no_store with_saved
                 ''load workout plan: 2''
               = Reply (with_saved\<lparr>current_workout_plan := Some [rowing_plan]\<rparr>) text)
   \<and> length (saved_workout_plans with_saved) < 99
   \<and> process_chat_message text_only (workout_backend None) no_store with_saved
        ''load workout plan: 99''
       = Reply with_saved (app_fail_mark @ '' list index out of range'')
   \<and> app_command (lower ''load workout plan: abc'') = LoadWorkout
   \<and> plan_number ''load workout plan: abc'' = None
   \<and> process_chat_message text_only (workout_backend None) no_store with_saved
        ''load workout plan: abc''
       = Reply with_saved which_workout"
proof -
  have len: "length (saved_workout_plans with_saved) = 2"
    by (simp add: with_saved_def)
  have it: "py_iter (plan_data (saved_workout_plans with_saved ! (2 - 1)))
              = Some [WorkoutPlan_dump rowing_plan]"
    by (simp add: with_saved_def saved_rowing_def py_iter_def)
  have rd: "construct_all WorkoutPlan_of [WorkoutPlan_dump rowing_plan :: unit json]
              = Inr [rowing_plan]"
    using construct_all_dump[of "[rowing_plan]"] by simp
  have two: "''load workout plan: '' @ str_of_nat 2 = ''load workout plan: 2''"
    by code_simp
  have far: "''load workout plan: '' @ str_of_nat 99 = ''load workout plan: 99''"
    by code_simp
  have cmd: "app_command (lower ''load workout plan: abc'') = LoadWorkout"
    by code_simp
  have nan: "plan_number ''load workout plan: abc'' = None"
    by code_simp
  note inst = load_workout_plan_by_number
                [where st = with_saved and n = 2 and k = 99 and items = "[WorkoutPlan_dump rowing_plan]"
                   and ws = "[rowing_plan]" and message = "''load workout plan: abc''"
                   and lib = text_only and llm = "workout_backend None" and d = no_store]
  have ne: "saved_workout_plans with_saved \<noteq> []"
    using len by auto
  from inst len it rd two have a:
    "\<exists>text. process_chat_message text_only (workout_backend None) no_store with_saved
              ''load workout plan: 2''
            = Reply (with_saved\<lparr>current_workout_plan := Some [rowing_plan]\<rparr>) text"
    by simp
  from inst len far ne have b:
    "process_chat_message text_only (workout_backend None) no_store with_saved
       ''load workout plan: 99''
     = Reply with_saved (app_fail_mark @ '' list index out of range'')"
    by simp
  from inst cmd nan ne have c:
    "process_chat_message text_only (workout_backend None) no_store with_saved
       ''load workout plan: abc''
     = Reply with_saved which_workout"
    by simp
  from len it rd a b cmd nan c show ?thesis by simp
qed

lemma format_diet_plan_ok: "list_all has_macros ds \<Longrightarrow> \<exists>t. format_diet_plan lib ds = Inr t"
proof (induction ds)
  case Nil
  then show ?case by simp
next
  case (Cons m ds)
  then obtain t where "format_diet_plan lib ds = Inr t" by auto
  with Cons.prems show ?case
    by (auto simp: has_macros_def item_def bind_exn_def)
qed

lemma load_workout_zero:
  fixes st :: "'f session"
  assumes "saved_workout_plans st \<noteq> []"
    and "py_iter (plan_data (last (saved_workout_plans st))) = Some items"
    and "construct_all WorkoutPlan_of items = Inr ws"
    and "list_all printable ws"
  shows "\<exists>details. format_workout_plan ws = Inr details
           \<and> process_chat_message lib llm d st ''load workout plan: 0''
               = Reply (st\<lparr>current_workout_plan := Some ws\<rparr>)
                   (app_ok_mark @ '' Loaded workout plan: ''
                      @ plan_name (last (saved_workout_plans st)) @ nl @ nl @ details)"
proof -
  define m where "m = ''load workout plan: 0''"
  have pn: "plan_number m = Some 0" unfolding m_def by code_simp
  have cmd: "app_command (lower m) = LoadWorkout" unfolding m_def by code_simp
  obtain details where f: "format_workout_plan ws = Inr details"
    using assms(4) format_days_ok unfolding format_workout_plan_def by blast
  have ld: "load_workout_plan lib st (0 - 1)
        = (st\<lparr>current_workout_plan := Some ws\<rparr>, True,
           ''Loaded workout plan: '' @ plan_name (last (saved_workout_plans st)))"
    using assms by (simp add: load_workout_plan_def py_index_minus_one)
  have "process_chat_message lib llm d st m
          = Reply (st\<lparr>current_workout_plan := Some ws\<rparr>)
              (app_ok_mark @ '' Loaded workout plan: ''
                 @ plan_name (last (saved_workout_plans st)) @ nl @ nl @ details)"
    using cmd pn assms(1) ld f
    by (simp add: process_chat_message_def app_load_workout_def)
  with f show ?thesis unfolding m_def by blast
qed

lemma load_diet_zero:
  fixes st :: "'f session"
  assumes "saved_diet_plans st \<noteq> []"
    and "py_iter (plan_data (last (saved_diet_plans st))) = Some items"
    and "construct_all (DietPlan_of lib) items = Inr ds"
    and "list_all has_macros ds"
  shows "\<exists>details. format_diet_plan lib ds = Inr details
           \<and> process_chat_message lib llm d st ''load diet plan: 0''
               = Reply (st\<lparr>current_diet_plan := Some ds\<rparr>)
                   (app_ok_mark @ '' Loaded diet plan: ''
                      @ plan_name (last (saved_diet_plans st)) @ nl @ nl @ details)"
proof -
  define m where "m = ''load diet plan: 0''"
  have pn: "plan_number m = Some 0" unfolding m_def by code_simp
  have cmd: "app_command (lower m) = LoadDiet" unfolding m_def by code_simp
  obtain details where f: "format_diet_plan lib ds = Inr details"
    using assms(4) format_diet_plan_ok by blast
  have ld: "load_diet_plan lib st (0 - 1)
        = (st\<lparr>current_diet_plan := Some ds\<rparr>, True,
           ''Loaded diet plan: '' @ plan_name (last (saved_diet_plans st)))"
    using assms by (simp add: load_diet_plan_def py_index_minus_one)
  have "process_chat_message lib llm d st m
          = Reply (st\<lparr>current_diet_plan := Some ds\<rparr>)
              (app_ok_mark @ '' Loaded diet plan: ''
                 @ plan_name (last (saved_diet_plans st)) @ nl @ nl @ details)"
    using cmd pn assms(1) ld f
    by (simp add: process_chat_message_def app_load_diet_def)
  with f show ?thesis unfolding m_def by blast
qed

text \<open>
  Claim C10: \<open>load workout plan: 0\<close> gives the number 0 and the index \<open>-1\<close>, which on a
  list that is not empty selects its last element. When the payload of that saved plan
  reads back as the plan \<open>ws\<close>, its exercises having a name, sets and reps, the command
  makes \<open>ws\<close> the current plan and replies with the success text naming that plan; the
  same holds for \<open>load diet plan: 0\<close> over the saved diet plans, the meals having their
  three macros.
\<close>

theorem load_plan_zero_selects_last:
  fixes st :: "'f session"
  shows
    "plan_number ''load workout plan: 0'' = Some 0 \<and> plan_number ''load diet plan: 0'' = Some 0
     \<and> (saved_workout_plans st \<noteq> []
          \<longrightarrow> py_index (saved_workout_plans st) (0 - 1) = Some (last (saved_workout_plans st)))
     \<and> (saved_diet_plans st \<noteq> []
          \<longrightarrow> py_index (saved_diet_plans st) (0 - 1) = Some (last (saved_diet_plans st)))
     \<and> (saved_workout_plans st \<noteq> []
          \<and> py_iter (plan_data (last (saved_workout_plans st))) = Some items
          \<and> construct_all WorkoutPlan_of items = Inr ws \<and> list_all printable ws
        \<longrightarrow> (\<exists>details. format_workout_plan ws = Inr details
               \<and> process_chat_message lib llm d st ''load workout plan: 0''
                   = Reply (st\<lparr>current_workout_plan := Some ws\<rparr>)
                       (app_ok_mark @ '' Loaded workout plan: ''
                          @ plan_name (last (saved_workout_plans st)) @ nl @ nl @ details)))
     \<and> (saved_diet_plans st \<noteq> []
          \<and> py_iter (plan_data (last (saved_diet_plans st))) = Some meals
          \<and> construct_all (DietPlan_of lib) meals = Inr ds \<and> list_all has_macros ds
        \<longrightarrow> (\<exists>details. format_diet_plan lib ds = Inr details
               \<and> process_chat_message lib llm d st ''load diet plan: 0''
                   = Reply (st\<lparr>current_diet_plan := Some ds\<rparr>)
                       (app_ok_mark @ '' Loaded diet plan: ''
                          @ plan_name (last (saved_diet_plans st)) @ nl @ nl @ details)))"
proof -
  have "plan_number ''load workout plan: 0'' = Some 0" by code_simp
  moreover have "plan_number ''load diet plan: 0'' = Some 0" by code_simp
  moreover have "saved_workout_plans st \<noteq> []
      \<longrightarrow> py_index (saved_workout_plans st) (0 - 1) = Some (last (saved_workout_plans st))"
    by (simp add: py_index_minus_one)
  moreover have "saved_diet_plans st \<noteq> []
      \<longrightarrow> py_index (saved_diet_plans st) (0 - 1) = Some (last (saved_diet_plans st))"
    by (simp add: py_index_minus_one)
  ultimately show ?thesis
    using load_workout_zero[of st items ws lib llm d] load_diet_zero[of st meals lib ds llm d]
    by blast
qed

theorem load_plan_zero_selects_last_witness:
  "saved_workout_plans with_saved \<noteq> [] \<and> last (saved_workout_plans with_saved) = saved_rowing
   \<and> py_iter (plan_data saved_rowing) = Some [WorkoutPlan_dump rowing_plan]
   \<and> construct_all WorkoutPlan_of [WorkoutPlan_dump rowing_plan :: unit json] = Inr [rowing_plan]
   \<and> list_all printable [rowing_plan]
   \<and> (\<exists>details.
         process_chat_message text_only (workout_backend None) no_store with_saved
           ''load workout plan: 0''
         = Reply (with_saved\<lparr>current_workout_plan := Some [rowing_plan]\<rparr>)
             (app_ok_mark @ '' Loaded workout plan: rowing'' @ nl @ nl @ details))
   \<and> saved_diet_plans with_saved \<noteq> [] \<and> last (saved_diet_plans with_saved) = saved_porridge
   \<and> (\<exists>meals. py_iter (plan_data saved_porridge) = Some meals
          \<and> construct_all (DietPlan_of text_only) meals = Inr [porridge])
   \<and> list_all has_macros [porridge]
   \<and> (\<exists>details.
         process_chat_message text_only (workout_backend None) no_store with_saved
           ''load diet plan: 0''
         = Reply (with_saved\<lparr>current_diet_plan := Some [porridge]\<rparr>)
             (app_ok_mark @ '' Loaded diet plan: porridge'' @ nl @ nl @ details))"
proof -
  let ?meals = "[JObj [(''meal_type'', JStr ''Breakfast''), (''foods'', JArr [JStr ''Porridge'']),
                       (''calories'', JInt 400),
                       (''macros'', JObj [(''protein'', JFloat ()), (''carbs'', JFloat ()),
                                          (''fat'', JFloat ())])]]"
  have w0: "saved_workout_plans with_saved \<noteq> []"
    and w1: "last (saved_workout_plans with_saved) = saved_rowing"
    and d0: "saved_diet_plans with_saved \<noteq> []"
    and d1: "last (saved_diet_plans with_saved) = saved_porridge"
    by (simp_all add: with_saved_def)
  have w2: "py_iter (plan_data saved_rowing) = Some [WorkoutPlan_dump rowing_plan]"
    by (simp add: saved_rowing_def py_iter_def)
  have w3: "construct_all WorkoutPlan_of [WorkoutPlan_dump rowing_plan :: unit json]
              = Inr [rowing_plan]"
    using construct_all_dump[of "[rowing_plan]"] by simp
  have w4: "list_all printable [rowing_plan]"
    by (simp add: printable_def rowing_plan_def has_keys_def)
  have d2: "py_iter (plan_data saved_porridge) = Some ?meals"
    by (simp add: saved_porridge_def py_iter_def)
  have d3: "construct_all (DietPlan_of text_only) ?meals = Inr [porridge]"
    by (simp add: DietPlan_of_def required_def str_field_def foods_field_def int_field_def
        macros_field_def float_field_def porridge_def)
  have d4: "list_all has_macros [porridge]"
    by (simp add: has_macros_def porridge_def)
  have n1: "plan_name saved_rowing = ''rowing''" by (simp add: saved_rowing_def)
  have n2: "plan_name saved_porridge = ''porridge''" by (simp add: saved_porridge_def)
  note inst = load_plan_zero_selects_last
                [where st = with_saved and items = "[WorkoutPlan_dump rowing_plan]"
                   and ws = "[rowing_plan]" and meals = ?meals and ds = "[porridge]"
                   and lib = text_only and llm = "workout_backend None" and d = no_store]
  from inst w0 w1 w2 w3 w4 n1 have a:
    "\<exists>details.
       process_chat_message text_only (workout_backend None) no_store with_saved
         ''load workout plan: 0''
       = Reply (with_saved\<lparr>current_workout_plan := Some [rowing_plan]\<rparr>)
           (app_ok_mark @ '' Loaded workout plan: rowing'' @ nl @ nl @ details)"
    by auto
  from inst d0 d1 d2 d3 d4 n2 have b:
    "\<exists>details.
       process_chat_message text_only (workout_backend None) no_store with_saved
         ''load diet plan: 0''
       = Reply (with_saved\<lparr>current_diet_plan := Some [porridge]\<rparr>)
           (app_ok_mark @ '' Loaded diet plan: porridge'' @ nl @ nl @ details)"
    by auto
  from d2 d3 have c:
    "\<exists>meals. py_iter (plan_data saved_porridge) = Some meals
        \<and> construct_all (DietPlan_of text_only) meals = Inr [porridge]"
    by blast
  from w0 w1 w2 w3 w4 a d0 d1 c d4 b show ?thesis by simp
qed

subsection \<open>Updating the profile\<close>

text \<open>
  Claim C5: the message \<open>update profile age: 31, goals: lose fat\<close> is read as exactly
  the two pairs \<open>age\<close>, \<open>31\<close> and \<open>goals\<close>, \<open>lose fat\<close>. In both interpreters the
  profile after the command is the profile before with these two entries set, as
  strings, whatever the store answers: every other key has the value it had, and
  nothing else of the web session changes.
\<close>

theorem update_profile_merges_named_keys:
  fixes st :: "'f session" and c :: "'f chat"
  shows
    "parse_updates ''update profile age: 31, goals: lose fat''
       = [(''age'', ''31''), (''goals'', ''lose fat'')]
     \<and> (\<exists>st' text.
           process_chat_message lib llm d st ''update profile age: 31, goals: lose fat''
             = Reply st' text
           \<and> map_of (user_profile st')
               = (map_of (user_profile st))(''age'' \<mapsto> JStr ''31'', ''goals'' \<mapsto> JStr ''lose fat'')
           \<and> (\<forall>key. key \<noteq> ''age'' \<and> key \<noteq> ''goals''
                 \<longrightarrow> map_of (user_profile st') key = map_of (user_profile st) key)
           \<and> st' = st\<lparr>user_profile := user_profile st'\<rparr>)
     \<and> (\<exists>c' r.
           process_message lib llm d c ''update profile age: 31, goals: lose fat''
             = Handled c' r
           \<and> map_of (ctx_user_profile c')
               = (map_of (ctx_user_profile c))(''age'' \<mapsto> JStr ''31'', ''goals'' \<mapsto> JStr ''lose fat'')
           \<and> (\<forall>key. key \<noteq> ''age'' \<and> key \<noteq> ''goals''
                 \<longrightarrow> map_of (ctx_user_profile c') key = map_of (ctx_user_profile c) key))"
proof -
  define m where "m = ''update profile age: 31, goals: lose fat''"
  have pu: "parse_updates m = [(''age'', ''31''), (''goals'', ''lose fat'')]"
    unfolding m_def by code_simp
  have app_cmd: "app_command (lower m) = UpdateProfile" unfolding m_def by code_simp
  have chat_cmd: "chat_command (lower m) = UpdateProfile" unfolding m_def by code_simp
  have app: "\<exists>st' text.
      process_chat_message lib llm d st m = Reply st' text
      \<and> map_of (user_profile st')
          = (map_of (user_profile st))(''age'' \<mapsto> JStr ''31'', ''goals'' \<mapsto> JStr ''lose fat'')
      \<and> st' = st\<lparr>user_profile := user_profile st'\<rparr>"
    using app_cmd pu merge_age_goals[of "user_profile st"]
    by (auto simp: process_chat_message_def app_update_profile_def update_profile_def Let_def
        simp del: merge_profile.simps split: sum.splits)
  have chat: "\<exists>c' r.
      process_message lib llm d c m = Handled c' r
      \<and> map_of (ctx_user_profile c')
          = (map_of (ctx_user_profile c))(''age'' \<mapsto> JStr ''31'', ''goals'' \<mapsto> JStr ''lose fat'')"
    using chat_cmd pu merge_age_goals[of "ctx_user_profile c"]
    by (auto simp: process_message_def handle_profile_update_def say_def Let_def
        simp del: merge_profile.simps split: sum.splits)
  from app obtain st' reply where a:
    "process_chat_message lib llm d st m = Reply st' reply"
    "map_of (user_profile st')
       = (map_of (user_profile st))(''age'' \<mapsto> JStr ''31'', ''goals'' \<mapsto> JStr ''lose fat'')"
    "st' = st\<lparr>user_profile := user_profile st'\<rparr>"
    by blast
  from a(2) have a4: "\<forall>key. key \<noteq> ''age'' \<and> key \<noteq> ''goals''
                       \<longrightarrow> map_of (user_profile st') key = map_of (user_profile st) key"
    by simp
  from chat obtain c' r where b:
    "process_message lib llm d c m = Handled c' r"
    "map_of (ctx_user_profile c')
       = (map_of (ctx_user_profile c))(''age'' \<mapsto> JStr ''31'', ''goals'' \<mapsto> JStr ''lose fat'')"
    by blast
  from b(2) have b3: "\<forall>key. key \<noteq> ''age'' \<and> key \<noteq> ''goals''
                       \<longrightarrow> map_of (ctx_user_profile c') key = map_of (ctx_user_profile c) key"
    by simp
  show ?thesis
    using pu a a4 b b3 unfolding m_def by blast
qed

theorem update_profile_merges_named_keys_witness:
  "\<exists>st' text c' r.
     process_chat_message text_only (workout_backend None) no_store with_saved
       ''update profile age: 31, goals: lose fat'' = Reply st' text
     \<and> map_of (user_profile st') ''age'' = Some (JStr ''31'')
     \<and> map_of (user_profile st') ''goals'' = Some (JStr ''lose fat'')
     \<and> ''weight'' \<noteq> ''age'' \<and> ''weight'' \<noteq> ''goals''
     \<and> map_of (user_profile st') ''weight'' = Some (JStr ''70kg'')
     \<and> process_message text_only (workout_backend None) no_store with_profile
         ''update profile age: 31, goals: lose fat'' = Handled c' r
     \<and> map_of (ctx_user_profile c') ''age'' = Some (JStr ''31'')
     \<and> map_of (ctx_user_profile c') ''weight'' = Some (JStr ''70kg'')"
proof -
  note inst = update_profile_merges_named_keys
                [where st = with_saved and c = with_profile and lib = text_only
                   and llm = "workout_backend None" and d = no_store]
  note web = inst [THEN conjunct2, THEN conjunct1]
  note cli = inst [THEN conjunct2, THEN conjunct2]
  obtain st' reply where a:
    "process_chat_message text_only (workout_backend None) no_store with_saved
       ''update profile age: 31, goals: lose fat'' = Reply st' reply"
    "map_of (user_profile st')
       = (map_of (user_profile with_saved))(''age'' \<mapsto> JStr ''31'', ''goals'' \<mapsto> JStr ''lose fat'')"
    using web by (elim exE conjE) (rule that, assumption+)
  obtain c' r where b:
    "process_message text_only (workout_backend None) no_store with_profile
       ''update profile age: 31, goals: lose fat'' = Handled c' r"
    "map_of (ctx_user_profile c')
       = (map_of (ctx_user_profile with_profile))(''age'' \<mapsto> JStr ''31'', ''goals'' \<mapsto> JStr ''lose fat'')"
    using cli by (elim exE conjE) (rule that, assumption+)
  have p: "map_of (user_profile with_saved) ''weight'' = Some (JStr ''70kg'')"
    by (simp add: with_saved_def)
  have q: "map_of (ctx_user_profile with_profile) ''weight'' = Some (JStr ''70kg'')"
    by (simp add: with_profile_def)
  have a1: "map_of (user_profile st') ''age'' = Some (JStr ''31'')"
    and a2: "map_of (user_profile st') ''goals'' = Some (JStr ''lose fat'')"
    and a3: "map_of (user_profile st') ''weight'' = Some (JStr ''70kg'')"
    unfolding a(2) using p by simp_all
  have b1: "map_of (ctx_user_profile c') ''age'' = Some (JStr ''31'')"
    and b2: "map_of (ctx_user_profile c') ''weight'' = Some (JStr ''70kg'')"
    unfolding b(2) using q by simp_all
  have n: "''weight'' \<noteq> ''age'' \<and> ''weight'' \<noteq> ''goals''" by simp
  show ?thesis
    apply (rule exI [of _ st'])
    apply (rule exI [of _ reply])
    apply (rule exI [of _ c'])
    apply (rule exI [of _ r])
    apply (intro conjI a(1) a1 a2 a3 b(1) b1 b2 n [THEN conjunct1] n [THEN conjunct2])
    done
qed

section \<open>Properties of the Calendar Exporter\<close>

lemma workout_description_ok: "printable w \<Longrightarrow> \<exists>t. workout_description w = Inr t"
  using exercise_lines_ok[of "exercises w" True]
  by (auto simp: workout_description_def printable_def bind_exn_def)

lemma workout_events_ok:
  assumes "list_all printable ws"
    and "\<forall>j < length ws. \<exists>dt. plus_days start (i + j) = Inr dt"
    and "timedelta_minutes mins = Inr mins"
    and "library_accepts env start mins i ws"
  shows "\<exists>evs. workout_events env start mins i ws = Inr evs
           \<and> length evs = length ws
           \<and> (\<forall>j < length ws.
                 plus_days start (i + j) = Inr (event_begin (evs ! j))
                 \<and> event_duration (evs ! j) = mins
                 \<and> event_name (evs ! j) = ''Workout: '' @ day (ws ! j)
                 \<and> event_uid (evs ! j) = uuid4 env (i + j))"
  using assms
proof (induction ws arbitrary: i)
  case Nil
  then show ?case by simp
next
  case (Cons w ws)
  from Cons.prems(1) have pw: "printable w" and pws: "list_all printable ws" by simp_all
  obtain t where t: "workout_description w = Inr t"
    using pw workout_description_ok by blast
  from Cons.prems(2) have "\<exists>dt. plus_days start (i + 0) = Inr dt" by blast
  then obtain dt where dt: "plus_days start i = Inr dt" by auto
  let ?e = "workout_event env i w t dt mins"
  from Cons.prems(4) t dt have lib:
    "ics env (Set_name (''Workout: '' @ day w)) = None"
    "ics env (Set_description t) = None"
    "ics env (Set_begin dt) = None"
    "ics env (Set_duration mins) = None"
    "ics env (Set_uid (uuid4 env i)) = None"
    "ics env (Events_add ?e) = None"
    and libs: "library_accepts env start mins (Suc i) ws"
    by simp_all
  have "\<forall>j < length ws. \<exists>dt. plus_days start (Suc i + j) = Inr dt"
  proof (intro allI impI)
    fix j assume "j < length ws"
    then have "Suc j < length (w # ws)" by simp
    with Cons.prems(2) have "\<exists>dt. plus_days start (i + Suc j) = Inr dt" by blast
    then show "\<exists>dt. plus_days start (Suc i + j) = Inr dt" by simp
  qed
  from Cons.IH[OF pws this Cons.prems(3) libs] obtain evs where evs:
    "workout_events env start mins (Suc i) ws = Inr evs"
    "length evs = length ws"
    "\<forall>j < length ws.
        plus_days start (Suc i + j) = Inr (event_begin (evs ! j))
        \<and> event_duration (evs ! j) = mins
        \<and> event_name (evs ! j) = ''Workout: '' @ day (ws ! j)
        \<and> event_uid (evs ! j) = uuid4 env (Suc i + j)"
    by blast
  have r: "workout_events env start mins i (w # ws) = Inr (?e # evs)"
    using t dt evs(1) lib Cons.prems(3) by (simp add: bind_exn_def and_then_def)
  have "\<forall>j < length (w # ws).
          plus_days start (i + j) = Inr (event_begin ((?e # evs) ! j))
          \<and> event_duration ((?e # evs) ! j) = mins
          \<and> event_name ((?e # evs) ! j) = ''Workout: '' @ day ((w # ws) ! j)
          \<and> event_uid ((?e # evs) ! j) = uuid4 env (i + j)"
  proof (intro allI impI)
    fix j assume j: "j < length (w # ws)"
    show "plus_days start (i + j) = Inr (event_begin ((?e # evs) ! j))
          \<and> event_duration ((?e # evs) ! j) = mins
          \<and> event_name ((?e # evs) ! j) = ''Workout: '' @ day ((w # ws) ! j)
          \<and> event_uid ((?e # evs) ! j) = uuid4 env (i + j)"
    proof (cases j)
      case 0
      then show ?thesis using dt by (simp add: workout_event_def)
    next
      case (Suc k)
      with j have "k < length ws" by simp
      with evs(3) Suc show ?thesis by simp
    qed
  qed
  with r evs(2) show ?case by simp
qed

lemma calendar_not_written:
  "create_workout_calendar no_directory ''calendars'' [] first_of_january (Some ''a/b'') None
     = Inl (Exn OtherError ''No such file or directory'')"
  by (simp add: create_workout_calendar_def no_directory_def and_then_def bind_exn_def)

lemma calendar_duration_overflow:
  "create_workout_calendar plain_env ''calendars'' (create_fallback_workout_plan 1)
     first_of_january None (Some 10000000000000)
     = Inl (Exn OverflowError ''Python int too large to convert to C int'')"
  by (simp add: create_workout_calendar_def plain_env_def and_then_def bind_exn_def
      create_fallback_workout_plan_def fallback_day_def workout_description_def
      exercise_line_def item_def timedelta_minutes_def timedelta_overflow_def)

lemma workout_events_returned:
  assumes "workout_events env start mins i ws = Inr evs"
  shows "length evs = length ws
         \<and> (\<forall>j < length ws.
               plus_days start (i + j) = Inr (event_begin (evs ! j))
               \<and> event_duration (evs ! j) = mins
               \<and> event_name (evs ! j) = ''Workout: '' @ day (ws ! j)
               \<and> event_uid (evs ! j) = uuid4 env (i + j))"
  using assms
proof (induction ws arbitrary: i evs)
  case Nil
  then show ?case by simp
next
  case (Cons w ws)
  from Cons.prems obtain description event_date more where
    dt: "plus_days start i = Inr event_date"
    and more: "workout_events env start mins (Suc i) ws = Inr more"
    and evs: "evs = workout_event env i w description event_date mins # more"
    by (auto simp: and_then_def bind_exn_def timedelta_minutes_def
        split: option.splits sum.splits if_splits)
  from Cons.IH[OF more] have len: "length more = length ws"
    and each: "\<forall>j < length ws.
        plus_days start (Suc i + j) = Inr (event_begin (more ! j))
        \<and> event_duration (more ! j) = mins
        \<and> event_name (more ! j) = ''Workout: '' @ day (ws ! j)
        \<and> event_uid (more ! j) = uuid4 env (Suc i + j)"
    by simp_all
  have "\<forall>j < length (w # ws).
          plus_days start (i + j) = Inr (event_begin (evs ! j))
          \<and> event_duration (evs ! j) = mins
          \<and> event_name (evs ! j) = ''Workout: '' @ day ((w # ws) ! j)
          \<and> event_uid (evs ! j) = uuid4 env (i + j)"
  proof (intro allI impI)
    fix j assume j: "j < length (w # ws)"
    show "plus_days start (i + j) = Inr (event_begin (evs ! j))
          \<and> event_duration (evs ! j) = mins
          \<and> event_name (evs ! j) = ''Workout: '' @ day ((w # ws) ! j)
          \<and> event_uid (evs ! j) = uuid4 env (i + j)"
    proof (cases j)
      case 0
      then show ?thesis using dt evs by (simp add: workout_event_def)
    next
      case (Suc k)
      with j have "k < length ws" by simp
      with each Suc evs show ?thesis by simp
    qed
  qed
  with len evs show ?case by simp
qed

lemma create_workout_calendar_returned:
  assumes "create_workout_calendar env output_dir workout_plans start_date name_arg minutes_arg
             = Inr (path, cal)"
  shows "workout_events env start_date (case minutes_arg of None \<Rightarrow> 60 | Some m \<Rightarrow> m) 0
           workout_plans = Inr (events cal)"
  using assms
  by (auto simp: create_workout_calendar_def Let_def and_then_def bind_exn_def
      split: option.splits sum.splits)

text \<open>
  Claim C7: whenever the export of a plan of \<open>n\<close> days returns, the calendar it wrote has
  exactly \<open>n\<close> events; the event of index \<open>i\<close> begins at the start date plus \<open>i\<close> days,
  is named after the day of index \<open>i\<close>, and has the duration of the call, which is 60
  minutes when the caller names none. The export returns when every exercise has a name,
  sets and reps, the \<open>n\<close> dates exist, the duration is one a \<open>timedelta\<close> can hold, the
  calendar library raises at none of the calls made for these days, and the file can be
  written.
\<close>

theorem calendar_has_one_event_per_day:
  "(\<forall>path cal.
      create_workout_calendar env output_dir workout_plans start_date name_arg minutes_arg
        = Inr (path, cal)
      \<longrightarrow> length (events cal) = length workout_plans
          \<and> (\<forall>i < length workout_plans.
                plus_days start_date i = Inr (event_begin (events cal ! i))
                \<and> event_duration (events cal ! i)
                    = (case minutes_arg of None \<Rightarrow> 60 | Some m \<Rightarrow> m)
                \<and> event_name (events cal ! i) = ''Workout: '' @ day (workout_plans ! i)))
   \<and> (list_all printable workout_plans
      \<and> (\<forall>i < length workout_plans. \<exists>dt. plus_days start_date i = Inr dt)
      \<and> - 999999999 \<le> (case minutes_arg of None \<Rightarrow> 60 | Some m \<Rightarrow> m) div 1440
      \<and> (case minutes_arg of None \<Rightarrow> 60 | Some m \<Rightarrow> m) div 1440 \<le> 999999999
      \<and> ics env (Set_creator ''Fitness Agent - Calendar Generator'') = None
      \<and> library_accepts env start_date (case minutes_arg of None \<Rightarrow> 60 | Some m \<Rightarrow> m) 0
            workout_plans
      \<and> (\<forall>cal. write_file env
                  (calendar_path output_dir
                     (case name_arg of None \<Rightarrow> ''Workout Schedule'' | Some s \<Rightarrow> s) start_date)
                  cal = None)
      \<longrightarrow> (\<exists>path cal.
            create_workout_calendar env output_dir workout_plans start_date name_arg minutes_arg
              = Inr (path, cal)))"
proof (intro conjI allI impI)
  fix path cal
  assume "create_workout_calendar env output_dir workout_plans start_date name_arg minutes_arg
            = Inr (path, cal)"
  then have r: "workout_events env start_date (case minutes_arg of None \<Rightarrow> 60 | Some m \<Rightarrow> m) 0
                  workout_plans = Inr (events cal)"
    by (rule create_workout_calendar_returned)
  from workout_events_returned[OF r]
  show "length (events cal) = length workout_plans" by simp
  fix i assume i: "i < length workout_plans"
  from workout_events_returned[OF r] i
  show "plus_days start_date i = Inr (event_begin (events cal ! i))"
    and "event_duration (events cal ! i) = (case minutes_arg of None \<Rightarrow> 60 | Some m \<Rightarrow> m)"
    and "event_name (events cal ! i) = ''Workout: '' @ day (workout_plans ! i)"
    by simp_all
next
  let ?minutes = "case minutes_arg of None \<Rightarrow> 60 | Some m \<Rightarrow> m"
  assume a: "list_all printable workout_plans
      \<and> (\<forall>i < length workout_plans. \<exists>dt. plus_days start_date i = Inr dt)
      \<and> - 999999999 \<le> ?minutes div 1440
      \<and> ?minutes div 1440 \<le> 999999999
      \<and> ics env (Set_creator ''Fitness Agent - Calendar Generator'') = None
      \<and> library_accepts env start_date ?minutes 0 workout_plans
      \<and> (\<forall>cal. write_file env
                  (calendar_path output_dir
                     (case name_arg of None \<Rightarrow> ''Workout Schedule'' | Some s \<Rightarrow> s) start_date)
                  cal = None)"
  then have p: "list_all printable workout_plans"
    and d: "\<forall>j < length workout_plans. \<exists>dt. plus_days start_date (0 + j) = Inr dt"
    and t: "timedelta_minutes ?minutes = Inr ?minutes"
    and cr: "ics env (Set_creator ''Fitness Agent - Calendar Generator'') = None"
    and acc: "library_accepts env start_date ?minutes 0 workout_plans"
    and wr: "\<forall>cal. write_file env
                  (calendar_path output_dir
                     (case name_arg of None \<Rightarrow> ''Workout Schedule'' | Some s \<Rightarrow> s) start_date)
                  cal = None"
    by (simp_all add: timedelta_minutes_def)
  from workout_events_ok[OF p d t acc] obtain evs where
    "workout_events env start_date ?minutes 0 workout_plans = Inr evs"
    by (elim exE conjE)
  with cr wr
  show "\<exists>path cal.
          create_workout_calendar env output_dir workout_plans start_date name_arg minutes_arg
            = Inr (path, cal)"
    by (simp add: create_workout_calendar_def bind_exn_def and_then_def Let_def)
qed

theorem calendar_has_one_event_per_day_witness:
  "list_all printable (create_fallback_workout_plan 3)
   \<and> length (create_fallback_workout_plan 3) = 3
   \<and> - 999999999 \<le> (60 :: int) div 1440 \<and> (60 :: int) div 1440 \<le> 999999999
   \<and> library_accepts plain_env first_of_january 60 0 (create_fallback_workout_plan 3)
   \<and> (\<exists>path cal.
         create_workout_calendar plain_env ''calendars'' (create_fallback_workout_plan 3)
           first_of_january None None = Inr (path, cal)
         \<and> length (events cal) = 3
         \<and> map (\<lambda>e. (year (event_begin e), month (event_begin e), day_of_month (event_begin e)))
               (events cal)
             = [(2024, 1, 1), (2024, 1, 2), (2024, 1, 3)]
         \<and> map event_duration (events cal) = [60, 60, 60])"
proof -
  let ?ws = "create_fallback_workout_plan 3"
  have len: "length ?ws = 3" by (simp add: create_fallback_workout_plan_def)
  have d0: "plus_days first_of_january 0 = Inr first_of_january" by simp
  have d1: "plus_days first_of_january 1 = Inr (first_of_january\<lparr>day_of_month := 2\<rparr>)"
    by code_simp
  have d2: "plus_days first_of_january 2 = Inr (first_of_january\<lparr>day_of_month := 3\<rparr>)"
    by code_simp
  have three: "i = 0 \<or> i = 1 \<or> i = 2" if "i < 3" for i :: nat
    using that by arith
  have dates: "\<forall>i < length ?ws. \<exists>dt. plus_days first_of_january i = Inr dt"
    unfolding len using three d0 d1 d2 by blast
  have range: "- 999999999 \<le> (60 :: int) div 1440 \<and> (60 :: int) div 1440 \<le> 999999999"
    by simp
  have cr: "ics plain_env (Set_creator ''Fitness Agent - Calendar Generator'') = None"
    by (simp add: plain_env_def)
  have acc: "library_accepts plain_env first_of_january m i ws" for m i ws
    by (induction ws arbitrary: i) (simp_all add: plain_env_def split: sum.splits)
  have wr: "\<forall>cal. write_file plain_env
                    (calendar_path ''calendars''
                       (case (None :: string option) of None \<Rightarrow> ''Workout Schedule'' | Some s \<Rightarrow> s)
                       first_of_january) cal = None"
    by (simp add: plain_env_def)
  note inst = calendar_has_one_event_per_day
                [where env = plain_env and output_dir = "''calendars''" and workout_plans = ?ws
                   and start_date = first_of_january and name_arg = None and minutes_arg = None]
  have "\<exists>path cal. create_workout_calendar plain_env ''calendars'' ?ws first_of_january None None
                     = Inr (path, cal)"
  proof (rule inst[THEN conjunct2, rule_format])
    show "list_all printable ?ws
      \<and> (\<forall>i < length ?ws. \<exists>dt. plus_days first_of_january i = Inr dt)
      \<and> - 999999999 \<le> (case (None :: int option) of None \<Rightarrow> 60 | Some m \<Rightarrow> m) div 1440
      \<and> (case (None :: int option) of None \<Rightarrow> 60 | Some m \<Rightarrow> m) div 1440 \<le> 999999999
      \<and> ics plain_env (Set_creator ''Fitness Agent - Calendar Generator'') = None
      \<and> library_accepts plain_env first_of_january
            (case (None :: int option) of None \<Rightarrow> 60 | Some m \<Rightarrow> m) 0 ?ws
      \<and> (\<forall>cal. write_file plain_env
                  (calendar_path ''calendars''
                     (case (None :: string option) of None \<Rightarrow> ''Workout Schedule'' | Some s \<Rightarrow> s)
                     first_of_january)
                  cal = None)"
      using printable_fallback dates cr acc wr by (intro conjI) simp_all
  qed
  then obtain path cal where
    r: "create_workout_calendar plain_env ''calendars'' ?ws first_of_january None None
          = Inr (path, cal)"
    by (elim exE)
  note props = inst[THEN conjunct1, rule_format, OF r]
  note l = props[THEN conjunct1] and each = props[THEN conjunct2]
  have l3: "length (events cal) = 3" using l len by simp
  have i0: "0 < length ?ws" and i1: "1 < length ?ws" and i2: "2 < length ?ws"
    using len by simp_all
  from each[rule_format, OF i0]
  have e0: "plus_days first_of_january 0 = Inr (event_begin (events cal ! 0))"
    and m0: "event_duration (events cal ! 0) = 60"
    by simp_all
  from each[rule_format, OF i1]
  have e1: "plus_days first_of_january 1 = Inr (event_begin (events cal ! 1))"
    and m1: "event_duration (events cal ! 1) = 60"
    by simp_all
  from each[rule_format, OF i2]
  have e2: "plus_days first_of_january 2 = Inr (event_begin (events cal ! 2))"
    and m2: "event_duration (events cal ! 2) = 60"
    by simp_all
  have b0: "event_begin (events cal ! 0) = first_of_january"
    using e0 d0 by simp
  have b1: "event_begin (events cal ! 1) = first_of_january\<lparr>day_of_month := 2\<rparr>"
    using e1 d1 by simp
  have b2: "event_begin (events cal ! 2) = first_of_january\<lparr>day_of_month := 3\<rparr>"
    using e2 d2 by simp
  obtain x y z where xyz: "events cal = [x, y, z]"
    using l3 by (auto simp: length_Suc_conv numeral_3_eq_3)
  have "map (\<lambda>e. (year (event_begin e), month (event_begin e), day_of_month (event_begin e)))
          (events cal) = [(2024, 1, 1), (2024, 1, 2), (2024, 1, 3)]"
    using b0 b1 b2 unfolding xyz by (simp add: first_of_january_def)
  moreover have "map event_duration (events cal) = [60, 60, 60]"
    using m0 m1 m2 unfolding xyz by simp
  ultimately have "\<exists>path cal.
      create_workout_calendar plain_env ''calendars'' ?ws first_of_january None None
        = Inr (path, cal)
      \<and> length (events cal) = 3
      \<and> map (\<lambda>e. (year (event_begin e), month (event_begin e), day_of_month (event_begin e)))
            (events cal)
          = [(2024, 1, 1), (2024, 1, 2), (2024, 1, 3)]
      \<and> map event_duration (events cal) = [60, 60, 60]"
    using r l3 by (intro exI conjI)
  with printable_fallback len range acc show ?thesis by (intro conjI) simp_all
qed

section \<open>Properties of the Persistence Gateway\<close>

lemma gateway_without_connection:
  assumes "\<not> connected d"
  shows "get_or_create_user d username = Inr (- 1, False)"
    and "save_profile d uid profile = Inr False"
    and "save_workout_plan d uid name plan = Inr (- 1)"
    and "save_diet_plan d uid name plan = Inr (- 1)"
  using assms
  by (simp_all add: get_or_create_user_def save_profile_def save_workout_plan_def
      save_diet_plan_def)

lemma readers_absorb_driver_errors:
  shows "\<exists>v. get_plans_body d = Inr v \<or> (\<exists>e. get_plans_body d = Inl e \<and> is_db_error e)
           \<Longrightarrow> \<exists>rows. get_workout_plans d uid = Inr rows"
    and "\<exists>v. get_plans_body d = Inr v \<or> (\<exists>e. get_plans_body d = Inl e \<and> is_db_error e)
           \<Longrightarrow> \<exists>rows. get_diet_plans d uid = Inr rows"
  by (auto simp: get_workout_plans_def get_diet_plans_def except_db_def)

lemma writers_absorb_when_rollback_returns:
  assumes "rollback d = None" and "save_plan_body d = Inl e" and "is_db_error e"
  shows "save_workout_plan d uid name plan = Inr (- 1)"
    and "save_diet_plan d uid name plan = Inr (- 1)"
  using assms
  by (simp_all add: save_workout_plan_def save_diet_plan_def except_db_def and_then_def)

text \<open>
  Claim C8, at a call during which the connection drops: the statement raises an error
  of the driver, the handler logs it and calls \<open>rollback\<close>, which raises on the closed
  connection, and that exception leaves the gateway. All four operations that roll back
  behave so; the three readers, whose handlers do not roll back, return their empty
  sentinel on the same driver, and a refused statement on a connection that stays open
  gives the sentinel.
\<close>

theorem gateway_raises_when_rollback_raises:
  "save_workout_plan connection_lost 1 ''plan'' ([] :: unit json list) = Inl already_closed
   \<and> save_diet_plan connection_lost 1 ''plan'' ([] :: unit json list) = Inl already_closed
   \<and> save_profile connection_lost 1 ([] :: (string \<times> unit json) list) = Inl already_closed
   \<and> get_or_create_user connection_lost ''ann'' = Inl already_closed
   \<and> get_profile connection_lost 1 = Inr ([] :: (string \<times> unit json) list)
   \<and> get_workout_plans connection_lost 1 = Inr ([] :: unit saved_plan list)
   \<and> get_diet_plans connection_lost 1 = Inr ([] :: unit saved_plan list)
   \<and> save_workout_plan constraint_violated 1 ''plan'' ([] :: unit json list) = Inr (- 1)"
  by (simp add: save_workout_plan_def save_diet_plan_def save_profile_def get_or_create_user_def
      get_profile_def get_workout_plans_def get_diet_plans_def save_plan_body_def
      save_profile_body_def get_or_create_user_body_def get_profile_body_def get_plans_body_def
      connection_lost_def constraint_violated_def except_db_def and_then_def bind_exn_def
      is_db_error_def server_closed_def already_closed_def)

end
